theory Spec2Isabelle
  imports Main "HOL-Library.Word"
begin

unbundle bit_operations_syntax

section \<open>Machine types of \<^verbatim>\<open>dxvk_meta_copy.h\<close>\<close>

text \<open>
  The Vulkan enumerations \<^verbatim>\<open>VkFormat\<close>, \<^verbatim>\<open>VkImageViewType\<close> and
  \<^verbatim>\<open>VkSampleCountFlagBits\<close> are C enumerations of 32 bits (each has a member
  \<^verbatim>\<open>..._MAX_ENUM = 0x7FFFFFFF\<close>), and \<^verbatim>\<open>VkImageAspectFlags\<close> is a
  \<^verbatim>\<open>uint32_t\<close>. The header only ever reads them through \<^verbatim>\<open>uint32_t(...)\<close>
  and \<^verbatim>\<open>==\<close>, so each is the 32-bit word of its representation. \<^verbatim>\<open>size_t\<close>
  is the 64-bit word of the platforms DXVK is built for; non-dispatchable Vulkan handles
  and pointers are 64-bit words, with 0 for \<^verbatim>\<open>VK_NULL_HANDLE\<close> and \<^verbatim>\<open>nullptr\<close>.
\<close>

type_synonym uint32_t = "32 word"
type_synonym size_t = "64 word"
type_synonym VkFormat = "32 word"
type_synonym VkImageViewType = "32 word"
type_synonym VkSampleCountFlagBits = "32 word"
type_synonym VkImageAspectFlags = "32 word"
type_synonym VkPipeline = "64 word"

definition VK_FORMAT_UNDEFINED :: VkFormat where
  "VK_FORMAT_UNDEFINED = 0"

definition VK_FORMAT_R8G8B8A8_UNORM :: VkFormat where
  "VK_FORMAT_R8G8B8A8_UNORM = 37"

definition VK_FORMAT_R8G8B8A8_SNORM :: VkFormat where
  "VK_FORMAT_R8G8B8A8_SNORM = 38"

definition VK_FORMAT_R16_UNORM :: VkFormat where
  "VK_FORMAT_R16_UNORM = 70"

definition VK_FORMAT_R32_SFLOAT :: VkFormat where
  "VK_FORMAT_R32_SFLOAT = 100"

definition VK_FORMAT_D16_UNORM :: VkFormat where
  "VK_FORMAT_D16_UNORM = 124"

definition VK_FORMAT_D32_SFLOAT :: VkFormat where
  "VK_FORMAT_D32_SFLOAT = 126"

definition VK_IMAGE_VIEW_TYPE_2D :: VkImageViewType where
  "VK_IMAGE_VIEW_TYPE_2D = 1"

definition VK_IMAGE_VIEW_TYPE_MAX_ENUM :: VkImageViewType where
  "VK_IMAGE_VIEW_TYPE_MAX_ENUM = 0x7FFFFFFF"

definition VK_SAMPLE_COUNT_1_BIT :: VkSampleCountFlagBits where
  "VK_SAMPLE_COUNT_1_BIT = 1"

definition VK_SAMPLE_COUNT_16_BIT :: VkSampleCountFlagBits where
  "VK_SAMPLE_COUNT_16_BIT = 16"

definition VK_SAMPLE_COUNT_32_BIT :: VkSampleCountFlagBits where
  "VK_SAMPLE_COUNT_32_BIT = 32"

definition VK_SAMPLE_COUNT_FLAG_BITS_MAX_ENUM :: VkSampleCountFlagBits where
  "VK_SAMPLE_COUNT_FLAG_BITS_MAX_ENUM = 0x7FFFFFFF"

definition VK_IMAGE_ASPECT_COLOR_BIT :: VkImageAspectFlags where
  "VK_IMAGE_ASPECT_COLOR_BIT = 1"

definition VK_IMAGE_ASPECT_DEPTH_BIT :: VkImageAspectFlags where
  "VK_IMAGE_ASPECT_DEPTH_BIT = 2"

definition VK_IMAGE_ASPECT_STENCIL_BIT :: VkImageAspectFlags where
  "VK_IMAGE_ASPECT_STENCIL_BIT = 4"

definition VK_NULL_HANDLE :: VkPipeline where
  "VK_NULL_HANDLE = 0"


section \<open>Pipeline keys\<close>

text \<open>\<^verbatim>\<open>struct DxvkMetaImageCopyPipelineKey\<close>, with its \<^verbatim>\<open>eq\<close> and \<^verbatim>\<open>hash\<close>.\<close>

record DxvkMetaImageCopyPipelineKey =
  viewType :: VkImageViewType
  format :: VkFormat
  samples :: VkSampleCountFlagBits

definition DxvkMetaImageCopyPipelineKey_default :: DxvkMetaImageCopyPipelineKey where
  "DxvkMetaImageCopyPipelineKey_default =
     \<lparr> viewType = VK_IMAGE_VIEW_TYPE_MAX_ENUM,
       format = VK_FORMAT_UNDEFINED,
       samples = VK_SAMPLE_COUNT_FLAG_BITS_MAX_ENUM \<rparr>"

definition DxvkMetaImageCopyPipelineKey_eq ::
  "DxvkMetaImageCopyPipelineKey \<Rightarrow> DxvkMetaImageCopyPipelineKey \<Rightarrow> bool" where
  "DxvkMetaImageCopyPipelineKey_eq this other \<longleftrightarrow>
     viewType this = viewType other
   \<and> format this = format other
   \<and> samples this = samples other"

text \<open>
  The three operands are \<^verbatim>\<open>uint32_t\<close>, so the shifts and the exclusive or are
  taken modulo \<open>2 ^ 32\<close>; the result is then widened to \<^verbatim>\<open>size_t\<close>.
\<close>

definition DxvkMetaImageCopyPipelineKey_hash :: "DxvkMetaImageCopyPipelineKey \<Rightarrow> size_t" where
  "DxvkMetaImageCopyPipelineKey_hash this =
     ucast ((push_bit 8 (format this)
        XOR push_bit 4 (samples this)
        XOR viewType this) :: uint32_t)"

text \<open>\<^verbatim>\<open>struct DxvkMetaBufferImageCopyPipelineKey\<close>.\<close>

record DxvkMetaBufferImageCopyPipelineKey =
  imageViewType :: VkImageViewType
  imageFormat :: VkFormat
  bufferFormat :: VkFormat
  imageAspects :: VkImageAspectFlags

definition DxvkMetaBufferImageCopyPipelineKey_default :: DxvkMetaBufferImageCopyPipelineKey where
  "DxvkMetaBufferImageCopyPipelineKey_default =
     \<lparr> imageViewType = VK_IMAGE_VIEW_TYPE_MAX_ENUM,
       imageFormat = VK_FORMAT_UNDEFINED,
       bufferFormat = VK_FORMAT_UNDEFINED,
       imageAspects = 0 \<rparr>"

definition DxvkMetaBufferImageCopyPipelineKey_eq ::
  "DxvkMetaBufferImageCopyPipelineKey \<Rightarrow> DxvkMetaBufferImageCopyPipelineKey \<Rightarrow> bool" where
  "DxvkMetaBufferImageCopyPipelineKey_eq this other \<longleftrightarrow>
     imageViewType this = imageViewType other
   \<and> imageFormat this = imageFormat other
   \<and> imageAspects this = imageAspects other
   \<and> bufferFormat this = bufferFormat other"

definition DxvkMetaBufferImageCopyPipelineKey_hash ::
  "DxvkMetaBufferImageCopyPipelineKey \<Rightarrow> size_t" where
  "DxvkMetaBufferImageCopyPipelineKey_hash this =
     ucast ((imageViewType this
        XOR push_bit 4 (imageAspects this)
        XOR push_bit 8 (imageFormat this)
        XOR push_bit 16 (bufferFormat this)) :: uint32_t)"


section \<open>Push constants\<close>

text \<open>
  \<^verbatim>\<open>struct DxvkFormattedBufferCopyArgs\<close> is a sequence of named members. The member
  types are the two 32-bit scalars and three Vulkan structures.

  Modelled from the spec: \<^verbatim>\<open>VkOffset3D\<close>, \<^verbatim>\<open>VkExtent3D\<close> and \<^verbatim>\<open>VkExtent2D\<close>
  are declared in the Vulkan headers, which are not part of the sources; they are three
  \<^verbatim>\<open>int32_t\<close>, three \<^verbatim>\<open>uint32_t\<close> and two \<^verbatim>\<open>uint32_t\<close>.
\<close>

datatype ctype = Int32 | UInt32 | Offset3D | Extent3D | Extent2D

fun scalars :: "ctype \<Rightarrow> ctype list" where
  "scalars Int32 = [Int32]"
| "scalars UInt32 = [UInt32]"
| "scalars Offset3D = [Int32, Int32, Int32]"
| "scalars Extent3D = [UInt32, UInt32, UInt32]"
| "scalars Extent2D = [UInt32, UInt32]"

fun scalar_size :: "ctype \<Rightarrow> nat" where
  "scalar_size _ = 4"

fun scalar_align :: "ctype \<Rightarrow> nat" where
  "scalar_align _ = 4"

definition sizeof :: "ctype \<Rightarrow> nat" where
  "sizeof t = sum_list (map scalar_size (scalars t))"

definition alignof :: "ctype \<Rightarrow> nat" where
  "alignof t = fold max (map scalar_align (scalars t)) 1"

definition align_up :: "nat \<Rightarrow> nat \<Rightarrow> nat" where
  "align_up off a = ((off + a - 1) div a) * a"

text \<open>
  The C layout rule: each member is placed at the next offset that its alignment divides,
  and the size of the structure is the end of the last member, rounded up to the largest
  alignment of a member.
\<close>

fun place :: "nat \<Rightarrow> (string \<times> ctype) list \<Rightarrow> (string \<times> nat) list" where
  "place off [] = []"
| "place off ((name, t) # ms) =
     (name, align_up off (alignof t)) # place (align_up off (alignof t) + sizeof t) ms"

fun struct_end :: "nat \<Rightarrow> (string \<times> ctype) list \<Rightarrow> nat" where
  "struct_end off [] = off"
| "struct_end off ((name, t) # ms) = struct_end (align_up off (alignof t) + sizeof t) ms"

definition struct_size :: "(string \<times> ctype) list \<Rightarrow> nat" where
  "struct_size ms = align_up (struct_end 0 ms) (fold max (map (alignof \<circ> snd) ms) 1)"

definition DxvkFormattedBufferCopyArgs :: "(string \<times> ctype) list" where
  "DxvkFormattedBufferCopyArgs =
     [(''dstOffset'', Offset3D), (''pad0'', UInt32),
      (''srcOffset'', Offset3D), (''pad1'', UInt32),
      (''extent'', Extent3D), (''pad2'', UInt32),
      (''dstSize'', Extent2D),
      (''srcSize'', Extent2D)]"


section \<open>The pipeline tables\<close>

text \<open>\<^verbatim>\<open>struct DxvkMetaCopyFormats\<close> and \<^verbatim>\<open>struct DxvkMetaCopyPipeline\<close>.\<close>

record DxvkMetaCopyFormats =
  dstFormat :: VkFormat
  srcFormat :: VkFormat

record DxvkMetaCopyPipeline =
  layout :: "64 word"
  pipeline :: VkPipeline

definition DxvkMetaCopyPipeline_default :: DxvkMetaCopyPipeline where
  "DxvkMetaCopyPipeline_default = \<lparr> layout = 0, pipeline = VK_NULL_HANDLE \<rparr>"

text \<open>
  The tables are \<^verbatim>\<open>std::unordered_map<Key, DxvkMetaCopyPipeline, DxvkHash, DxvkEq>\<close>,
  where \<^verbatim>\<open>DxvkHash\<close> calls \<^verbatim>\<open>hash()\<close> of the key and \<^verbatim>\<open>DxvkEq\<close> calls its
  \<^verbatim>\<open>eq\<close>. A table is the list of its entries in the order of insertion.
  \<^verbatim>\<open>find\<close> returns the entry that has the hash of the key looked up (the bucket is a
  function of the hash) and is \<^verbatim>\<open>eq\<close> to it; \<^verbatim>\<open>insert\<close> adds an entry unless
  \<^verbatim>\<open>find\<close> has one, and never overwrites.
\<close>

type_synonym ('k, 'v) unordered_map = "('k \<times> 'v) list"

definition unordered_map_find ::
  "('k \<Rightarrow> size_t) \<Rightarrow> ('k \<Rightarrow> 'k \<Rightarrow> bool) \<Rightarrow> ('k, 'v) unordered_map \<Rightarrow> 'k \<Rightarrow> 'v option" where
  "unordered_map_find h e m k =
     map_option snd (List.find (\<lambda>entry. h (fst entry) = h k \<and> e (fst entry) k) m)"

definition unordered_map_insert ::
  "('k \<Rightarrow> size_t) \<Rightarrow> ('k \<Rightarrow> 'k \<Rightarrow> bool) \<Rightarrow> ('k, 'v) unordered_map \<Rightarrow> 'k \<Rightarrow> 'v
     \<Rightarrow> ('k, 'v) unordered_map" where
  "unordered_map_insert h e m k v =
     (case unordered_map_find h e m k of None \<Rightarrow> m @ [(k, v)] | Some _ \<Rightarrow> m)"

definition unordered_map_count ::
  "('k \<Rightarrow> size_t) \<Rightarrow> ('k \<Rightarrow> 'k \<Rightarrow> bool) \<Rightarrow> ('k, 'v) unordered_map \<Rightarrow> 'k \<Rightarrow> nat" where
  "unordered_map_count h e m k =
     length (filter (\<lambda>entry. h (fst entry) = h k \<and> e (fst entry) k) m)"

abbreviation image_find ::
  "(DxvkMetaImageCopyPipelineKey, 'v) unordered_map \<Rightarrow> DxvkMetaImageCopyPipelineKey \<Rightarrow> 'v option" where
  "image_find \<equiv> unordered_map_find DxvkMetaImageCopyPipelineKey_hash DxvkMetaImageCopyPipelineKey_eq"

abbreviation image_insert ::
  "(DxvkMetaImageCopyPipelineKey, 'v) unordered_map \<Rightarrow> DxvkMetaImageCopyPipelineKey \<Rightarrow> 'v
     \<Rightarrow> (DxvkMetaImageCopyPipelineKey, 'v) unordered_map" where
  "image_insert \<equiv> unordered_map_insert DxvkMetaImageCopyPipelineKey_hash DxvkMetaImageCopyPipelineKey_eq"

abbreviation image_count ::
  "(DxvkMetaImageCopyPipelineKey, 'v) unordered_map \<Rightarrow> DxvkMetaImageCopyPipelineKey \<Rightarrow> nat" where
  "image_count \<equiv> unordered_map_count DxvkMetaImageCopyPipelineKey_hash DxvkMetaImageCopyPipelineKey_eq"

abbreviation buffer_image_find ::
  "(DxvkMetaBufferImageCopyPipelineKey, 'v) unordered_map
     \<Rightarrow> DxvkMetaBufferImageCopyPipelineKey \<Rightarrow> 'v option" where
  "buffer_image_find \<equiv>
     unordered_map_find DxvkMetaBufferImageCopyPipelineKey_hash DxvkMetaBufferImageCopyPipelineKey_eq"

abbreviation buffer_image_insert ::
  "(DxvkMetaBufferImageCopyPipelineKey, 'v) unordered_map
     \<Rightarrow> DxvkMetaBufferImageCopyPipelineKey \<Rightarrow> 'v
     \<Rightarrow> (DxvkMetaBufferImageCopyPipelineKey, 'v) unordered_map" where
  "buffer_image_insert \<equiv>
     unordered_map_insert DxvkMetaBufferImageCopyPipelineKey_hash DxvkMetaBufferImageCopyPipelineKey_eq"

abbreviation buffer_image_count ::
  "(DxvkMetaBufferImageCopyPipelineKey, 'v) unordered_map
     \<Rightarrow> DxvkMetaBufferImageCopyPipelineKey \<Rightarrow> nat" where
  "buffer_image_count \<equiv>
     unordered_map_count DxvkMetaBufferImageCopyPipelineKey_hash DxvkMetaBufferImageCopyPipelineKey_eq"


section \<open>The external collaborators\<close>

text \<open>
  The header declares the methods of \<^verbatim>\<open>DxvkMetaCopyObjects\<close>; their bodies, the
  device, the shader provider and the layout cache are not part of the sources. What the
  model needs from outside is collected here, as its parameters.
\<close>

text \<open>Modelled from the spec: the two kinds of fatal error of its error taxonomy.\<close>

datatype DxvkError = ConfigurationError | ResourceCreationFailure

text \<open>
  Modelled from the spec: one pipeline-creation call, issued for one of the four kinds of
  pipeline; the three keyed kinds carry their key.
\<close>

datatype pipeline_request =
    CopyImage DxvkMetaImageCopyPipelineKey
  | BufferToImage DxvkMetaBufferImageCopyPipelineKey
  | ImageToBuffer DxvkMetaBufferImageCopyPipelineKey
  | FormattedBuffer

text \<open>
  The device, as far as the cache is concerned: the pipeline-creation calls that the
  private \<^verbatim>\<open>create...Pipeline\<close> methods of the cache have had it serve, oldest
  first.
\<close>

record DxvkDevice =
  created :: "pipeline_request list"


section \<open>The cache \<^verbatim>\<open>DxvkMetaCopyObjects\<close>\<close>

text \<open>
  The data members of the class, as the header declares them. \<^verbatim>\<open>m_mutex\<close> has no
  field: every public method holds it from entry to exit, so the sequential model below
  is the behaviour of the serialised calls.
\<close>

record DxvkMetaCopyObjects =
  m_device :: DxvkDevice
  m_copyImagePipelines :: "(DxvkMetaImageCopyPipelineKey, DxvkMetaCopyPipeline) unordered_map"
  m_bufferToImagePipelines :: "(DxvkMetaBufferImageCopyPipelineKey, DxvkMetaCopyPipeline) unordered_map"
  m_imageToBufferPipelines :: "(DxvkMetaBufferImageCopyPipelineKey, DxvkMetaCopyPipeline) unordered_map"
  m_copyBufferImagePipeline :: DxvkMetaCopyPipeline

text \<open>The constructor: empty tables, and the slot with its default member initialiser.\<close>

definition DxvkMetaCopyObjects_new :: "DxvkDevice \<Rightarrow> DxvkMetaCopyObjects" where
  "DxvkMetaCopyObjects_new device =
     \<lparr> m_device = device,
       m_copyImagePipelines = [],
       m_bufferToImagePipelines = [],
       m_imageToBufferPipelines = [],
       m_copyBufferImagePipeline = DxvkMetaCopyPipeline_default \<rparr>"

type_synonym 'a method_result = "(DxvkError + 'a) \<times> DxvkMetaCopyObjects"

text \<open>
  Modelled from the spec: the body of \<^verbatim>\<open>getCopyImageFormats\<close> is not part of the
  sources. The spec describes the method as a lookup without side effects; what it
  computes is left open here: the body is any function of the object and the four
  arguments that fails or returns a pair of formats.
\<close>

type_synonym getCopyImageFormats_body =
  "DxvkMetaCopyObjects \<Rightarrow> VkFormat \<Rightarrow> VkImageAspectFlags \<Rightarrow> VkFormat \<Rightarrow> VkImageAspectFlags
     \<Rightarrow> DxvkError + DxvkMetaCopyFormats"

text \<open>
  Modelled from the spec: the collaborators. \<open>vkCreatePipeline\<close> stands for shader
  selection, layout lookup and the pipeline-creation call of the device together: given
  the requests the device has served so far and a new request, it fails with a fatal
  error or returns the pipeline. \<open>copyImageFormats\<close> is the body of
  \<^verbatim>\<open>getCopyImageFormats\<close>, whatever it is.
\<close>

record Externals =
  vkCreatePipeline :: "pipeline_request list \<Rightarrow> pipeline_request \<Rightarrow> DxvkError + DxvkMetaCopyPipeline"
  copyImageFormats :: getCopyImageFormats_body

text \<open>
  Modelled from the spec: one pipeline-creation call. A failure is propagated and leaves
  no trace, a success is recorded by the device.
\<close>

definition createPipeline ::
  "Externals \<Rightarrow> pipeline_request \<Rightarrow> DxvkMetaCopyObjects \<Rightarrow> DxvkMetaCopyPipeline method_result" where
  "createPipeline ext req this =
     (case vkCreatePipeline ext (created (m_device this)) req of
        Inl err \<Rightarrow> (Inl err, this)
      | Inr p \<Rightarrow>
          (Inr p, this\<lparr> m_device := \<lparr> created = created (m_device this) @ [req] \<rparr> \<rparr>))"

text \<open>
  Modelled from the spec: the bodies of the four private \<^verbatim>\<open>create...Pipeline\<close>
  methods are missing. Each issues one pipeline-creation call for its kind of pipeline.
\<close>

definition createCopyImagePipeline ::
  "Externals \<Rightarrow> DxvkMetaImageCopyPipelineKey \<Rightarrow> DxvkMetaCopyObjects
     \<Rightarrow> DxvkMetaCopyPipeline method_result" where
  "createCopyImagePipeline ext key this = createPipeline ext (CopyImage key) this"

text \<open>Modelled from the spec: as above, for the buffer to image pipelines.\<close>

definition createCopyBufferToImagePipeline ::
  "Externals \<Rightarrow> DxvkMetaBufferImageCopyPipelineKey \<Rightarrow> DxvkMetaCopyObjects
     \<Rightarrow> DxvkMetaCopyPipeline method_result" where
  "createCopyBufferToImagePipeline ext key this = createPipeline ext (BufferToImage key) this"

text \<open>Modelled from the spec: as above, for the image to buffer pipelines.\<close>

definition createCopyImageToBufferPipeline ::
  "Externals \<Rightarrow> DxvkMetaBufferImageCopyPipelineKey \<Rightarrow> DxvkMetaCopyObjects
     \<Rightarrow> DxvkMetaCopyPipeline method_result" where
  "createCopyImageToBufferPipeline ext key this = createPipeline ext (ImageToBuffer key) this"

text \<open>Modelled from the spec: as above, for the formatted buffer pipeline.\<close>

definition createCopyFormattedBufferPipeline ::
  "Externals \<Rightarrow> DxvkMetaCopyObjects \<Rightarrow> DxvkMetaCopyPipeline method_result" where
  "createCopyFormattedBufferPipeline ext this = createPipeline ext FormattedBuffer this"

text \<open>
  Modelled from the spec: \<^verbatim>\<open>getCopyImageFormats\<close>, whose body is missing. The spec
  describes it as pure, and the header declares it \<^verbatim>\<open>const\<close>: the model takes from
  the spec that a call returns what the body computes and leaves the cache and the device
  as they were. That the call changes nothing is therefore an assumption of the model,
  not a property derived from code.
\<close>

definition getCopyImageFormats ::
  "Externals \<Rightarrow> VkFormat \<Rightarrow> VkImageAspectFlags \<Rightarrow> VkFormat \<Rightarrow> VkImageAspectFlags
     \<Rightarrow> DxvkMetaCopyObjects \<Rightarrow> DxvkMetaCopyFormats method_result" where
  "getCopyImageFormats ext dstFmt dstAspect srcFmt srcAspect this =
     (copyImageFormats ext this dstFmt dstAspect srcFmt srcAspect, this)"

text \<open>
  Modelled from the spec: the body of \<^verbatim>\<open>getCopyImagePipeline\<close> is missing. It builds
  the key from its arguments, returns the stored pipeline on a hit and, on a miss, creates
  the pipeline, inserts it and returns it. A failed creation is propagated and inserts
  nothing.
\<close>

definition getCopyImagePipeline ::
  "Externals \<Rightarrow> VkImageViewType \<Rightarrow> VkFormat \<Rightarrow> VkSampleCountFlagBits \<Rightarrow> DxvkMetaCopyObjects
     \<Rightarrow> DxvkMetaCopyPipeline method_result" where
  "getCopyImagePipeline ext vt dstFmt dstSamples this =
     (let key = \<lparr> viewType = vt, format = dstFmt, samples = dstSamples \<rparr> in
      case image_find (m_copyImagePipelines this) key of
        Some p \<Rightarrow> (Inr p, this)
      | None \<Rightarrow>
          (case createCopyImagePipeline ext key this of
             (Inl err, this') \<Rightarrow> (Inl err, this')
           | (Inr p, this') \<Rightarrow>
               (Inr p, this'\<lparr> m_copyImagePipelines :=
                  image_insert (m_copyImagePipelines this') key p \<rparr>)))"

text \<open>
  Modelled from the spec: the body of \<^verbatim>\<open>getCopyBufferToImagePipeline\<close> is missing. It
  follows the same algorithm on its own table; the view type of the key, which no argument
  names, keeps its default member initialiser.
\<close>

definition getCopyBufferToImagePipeline ::
  "Externals \<Rightarrow> VkFormat \<Rightarrow> VkFormat \<Rightarrow> VkImageAspectFlags \<Rightarrow> DxvkMetaCopyObjects
     \<Rightarrow> DxvkMetaCopyPipeline method_result" where
  "getCopyBufferToImagePipeline ext dstFmt srcFmt aspects this =
     (let key = DxvkMetaBufferImageCopyPipelineKey_default
                  \<lparr> imageFormat := dstFmt, bufferFormat := srcFmt, imageAspects := aspects \<rparr> in
      case buffer_image_find (m_bufferToImagePipelines this) key of
        Some p \<Rightarrow> (Inr p, this)
      | None \<Rightarrow>
          (case createCopyBufferToImagePipeline ext key this of
             (Inl err, this') \<Rightarrow> (Inl err, this')
           | (Inr p, this') \<Rightarrow>
               (Inr p, this'\<lparr> m_bufferToImagePipelines :=
                  buffer_image_insert (m_bufferToImagePipelines this') key p \<rparr>)))"

text \<open>
  Modelled from the spec: the body of \<^verbatim>\<open>getCopyImageToBufferPipeline\<close> is missing. It
  follows the same algorithm on its own table, keyed by the view type and the format of
  the destination buffer; the other fields of the key keep their default member
  initialisers.
\<close>

definition getCopyImageToBufferPipeline ::
  "Externals \<Rightarrow> VkImageViewType \<Rightarrow> VkFormat \<Rightarrow> DxvkMetaCopyObjects
     \<Rightarrow> DxvkMetaCopyPipeline method_result" where
  "getCopyImageToBufferPipeline ext vt dstFmt this =
     (let key = DxvkMetaBufferImageCopyPipelineKey_default
                  \<lparr> imageViewType := vt, bufferFormat := dstFmt \<rparr> in
      case buffer_image_find (m_imageToBufferPipelines this) key of
        Some p \<Rightarrow> (Inr p, this)
      | None \<Rightarrow>
          (case createCopyImageToBufferPipeline ext key this of
             (Inl err, this') \<Rightarrow> (Inl err, this')
           | (Inr p, this') \<Rightarrow>
               (Inr p, this'\<lparr> m_imageToBufferPipelines :=
                  buffer_image_insert (m_imageToBufferPipelines this') key p \<rparr>)))"

text \<open>
  Modelled from the spec: the body of \<^verbatim>\<open>getCopyFormattedBufferPipeline\<close> is missing.
  The pipeline is built on the first call and reused afterwards. The class has no member
  that could record a first call other than the slot itself, which starts as
  \<^verbatim>\<open>{ nullptr, VK_NULL_HANDLE }\<close>: the slot is empty while its handle is null.
\<close>

definition getCopyFormattedBufferPipeline ::
  "Externals \<Rightarrow> DxvkMetaCopyObjects \<Rightarrow> DxvkMetaCopyPipeline method_result" where
  "getCopyFormattedBufferPipeline ext this =
     (if pipeline (m_copyBufferImagePipeline this) \<noteq> VK_NULL_HANDLE
      then (Inr (m_copyBufferImagePipeline this), this)
      else
        (case createCopyFormattedBufferPipeline ext this of
           (Inl err, this') \<Rightarrow> (Inl err, this')
         | (Inr p, this') \<Rightarrow> (Inr p, this'\<lparr> m_copyBufferImagePipeline := p \<rparr>)))"

text \<open>The public methods of the class as one step function, and runs of calls.\<close>

datatype api_call =
    GetCopyImageFormats VkFormat VkImageAspectFlags VkFormat VkImageAspectFlags
  | GetCopyBufferToImagePipeline VkFormat VkFormat VkImageAspectFlags
  | GetCopyImageToBufferPipeline VkImageViewType VkFormat
  | GetCopyImagePipeline VkImageViewType VkFormat VkSampleCountFlagBits
  | GetCopyFormattedBufferPipeline

datatype api_result = Formats DxvkMetaCopyFormats | Pipeline DxvkMetaCopyPipeline

definition returning ::
  "('a \<Rightarrow> api_result) \<Rightarrow> 'a method_result \<Rightarrow> api_result method_result" where
  "returning wrap r = (map_sum id wrap (fst r), snd r)"

fun call :: "Externals \<Rightarrow> api_call \<Rightarrow> DxvkMetaCopyObjects \<Rightarrow> api_result method_result" where
  "call ext (GetCopyImageFormats dstFmt dstAspect srcFmt srcAspect) this =
     returning Formats (getCopyImageFormats ext dstFmt dstAspect srcFmt srcAspect this)"
| "call ext (GetCopyBufferToImagePipeline dstFmt srcFmt aspects) this =
     returning Pipeline (getCopyBufferToImagePipeline ext dstFmt srcFmt aspects this)"
| "call ext (GetCopyImageToBufferPipeline vt dstFmt) this =
     returning Pipeline (getCopyImageToBufferPipeline ext vt dstFmt this)"
| "call ext (GetCopyImagePipeline vt dstFmt dstSamples) this =
     returning Pipeline (getCopyImagePipeline ext vt dstFmt dstSamples this)"
| "call ext GetCopyFormattedBufferPipeline this =
     returning Pipeline (getCopyFormattedBufferPipeline ext this)"

fun calls ::
  "Externals \<Rightarrow> api_call list \<Rightarrow> DxvkMetaCopyObjects
     \<Rightarrow> (DxvkError + api_result) list \<times> DxvkMetaCopyObjects" where
  "calls ext [] this = ([], this)"
| "calls ext (c # cs) this =
     (fst (call ext c this) # fst (calls ext cs (snd (call ext c this))),
      snd (calls ext cs (snd (call ext c this))))"

text \<open>The states of a cache that was constructed on a device which has built nothing yet.\<close>

inductive reachable :: "Externals \<Rightarrow> DxvkMetaCopyObjects \<Rightarrow> bool" for ext where
  constructed: "reachable ext (DxvkMetaCopyObjects_new \<lparr> created = [] \<rparr>)"
| called: "reachable ext this \<Longrightarrow> reachable ext (snd (call ext c this))"


section \<open>Invariants and examples\<close>

text \<open>
  The invariant of a table against the history of the device: no key occurs twice in the
  table, and a pipeline was created for a key exactly once if the key is in the table and
  never otherwise.
\<close>

definition table_inv ::
  "('k \<times> 'v) list \<Rightarrow> ('k \<Rightarrow> pipeline_request) \<Rightarrow> pipeline_request list \<Rightarrow> bool" where
  "table_inv m req log \<longleftrightarrow>
     distinct (map fst m)
   \<and> (\<forall>k. count_list log (req k) = (if k \<in> fst ` set m then 1 else 0))"

definition cache_inv :: "DxvkMetaCopyObjects \<Rightarrow> bool" where
  "cache_inv this \<longleftrightarrow>
     table_inv (m_copyImagePipelines this) CopyImage (created (m_device this))
   \<and> table_inv (m_bufferToImagePipelines this) BufferToImage (created (m_device this))
   \<and> table_inv (m_imageToBufferPipelines this) ImageToBuffer (created (m_device this))"

text \<open>
  Collaborators to run the model on: a device that never fails and hands out the handles
  1, 2, 3 and so on, and a body of \<^verbatim>\<open>getCopyImageFormats\<close> that returns the formats
  it is given.
\<close>

definition example_externals :: Externals where
  "example_externals =
     \<lparr> vkCreatePipeline = (\<lambda>log req. Inr \<lparr> layout = 4096, pipeline = of_nat (length log) + 1 \<rparr>),
       copyImageFormats = (\<lambda>this dstFmt dstAspect srcFmt srcAspect.
          Inr \<lparr> dstFormat = dstFmt, srcFormat = srcFmt \<rparr>) \<rparr>"

section \<open>Properties of the keys\<close>

lemma fits_take_bit:
  fixes x :: "32 word"
  assumes "x < 2 ^ n"
  shows "take_bit n x = x"
  using less_mask_eq [OF assms] by (simp add: take_bit_eq_mask)

lemma fits_bit:
  fixes x :: "32 word"
  assumes "x < 2 ^ n" and "bit x i"
  shows "i < n"
  using fits_take_bit [OF assms(1)] assms(2) by (metis bit_take_bit_iff)

lemma size_t_of_uint32_inj:
  fixes x y :: uint32_t
  assumes "(ucast x :: size_t) = ucast y"
  shows "x = y"
proof -
  have "(ucast (ucast x :: size_t) :: uint32_t) = ucast (ucast y :: size_t)"
    using assms by simp
  then show ?thesis
    by (simp add: ucast_up_ucast_id is_up)
qed

text \<open>Each field can be read back from the hash when it fits in its bit range.\<close>

lemma image_hash_fields:
  fixes v s f :: uint32_t
  assumes "v < 2 ^ 4" and "s < 2 ^ 4" and "f < 2 ^ 24"
  shows "take_bit 4 (push_bit 8 f XOR push_bit 4 s XOR v) = v"
    and "take_bit 4 (drop_bit 4 (push_bit 8 f XOR push_bit 4 s XOR v)) = s"
    and "drop_bit 8 (push_bit 8 f XOR push_bit 4 s XOR v) = f"
  by (rule bit_word_eqI;
      auto simp add: bit_simps
        dest: fits_bit [OF assms(1)] fits_bit [OF assms(2)] fits_bit [OF assms(3)])+

lemma buffer_image_hash_fields:
  fixes v a f b :: uint32_t
  assumes "v < 2 ^ 4" and "a < 2 ^ 4" and "f < 2 ^ 8" and "b < 2 ^ 16"
  shows "take_bit 4 (v XOR push_bit 4 a XOR push_bit 8 f XOR push_bit 16 b) = v"
    and "take_bit 4 (drop_bit 4 (v XOR push_bit 4 a XOR push_bit 8 f XOR push_bit 16 b)) = a"
    and "take_bit 8 (drop_bit 8 (v XOR push_bit 4 a XOR push_bit 8 f XOR push_bit 16 b)) = f"
    and "drop_bit 16 (v XOR push_bit 4 a XOR push_bit 8 f XOR push_bit 16 b) = b"
  by (rule bit_word_eqI;
      auto simp add: bit_simps
        dest: fits_bit [OF assms(1)] fits_bit [OF assms(2)]
              fits_bit [OF assms(3)] fits_bit [OF assms(4)])+

lemma image_hash_inj_in_range:
  assumes a: "viewType a < 2 ^ 4" "samples a < 2 ^ 4" "format a < 2 ^ 24"
    and b: "viewType b < 2 ^ 4" "samples b < 2 ^ 4" "format b < 2 ^ 24"
    and h: "DxvkMetaImageCopyPipelineKey_hash a = DxvkMetaImageCopyPipelineKey_hash b"
  shows "a = b"
proof -
  let ?h = "\<lambda>k. push_bit 8 (format k) XOR push_bit 4 (samples k) XOR viewType k"
  have e: "?h a = ?h b"
    using h unfolding DxvkMetaImageCopyPipelineKey_hash_def by (rule size_t_of_uint32_inj)
  have "viewType a = take_bit 4 (?h a)"
    using image_hash_fields(1) [OF a] by simp
  also have "\<dots> = viewType b"
    unfolding e using image_hash_fields(1) [OF b] by simp
  finally have 1: "viewType a = viewType b" .
  have "samples a = take_bit 4 (drop_bit 4 (?h a))"
    using image_hash_fields(2) [OF a] by simp
  also have "\<dots> = samples b"
    unfolding e using image_hash_fields(2) [OF b] by simp
  finally have 2: "samples a = samples b" .
  have "format a = drop_bit 8 (?h a)"
    using image_hash_fields(3) [OF a] by simp
  also have "\<dots> = format b"
    unfolding e using image_hash_fields(3) [OF b] by simp
  finally have 3: "format a = format b" .
  from 1 2 3 show ?thesis by simp
qed

lemma buffer_image_hash_inj_in_range:
  assumes a: "imageViewType a < 2 ^ 4" "imageAspects a < 2 ^ 4"
             "imageFormat a < 2 ^ 8" "bufferFormat a < 2 ^ 16"
    and b: "imageViewType b < 2 ^ 4" "imageAspects b < 2 ^ 4"
           "imageFormat b < 2 ^ 8" "bufferFormat b < 2 ^ 16"
    and h: "DxvkMetaBufferImageCopyPipelineKey_hash a = DxvkMetaBufferImageCopyPipelineKey_hash b"
  shows "a = b"
proof -
  let ?h = "\<lambda>k. imageViewType k XOR push_bit 4 (imageAspects k)
              XOR push_bit 8 (imageFormat k) XOR push_bit 16 (bufferFormat k)"
  have e: "?h a = ?h b"
    using h unfolding DxvkMetaBufferImageCopyPipelineKey_hash_def by (rule size_t_of_uint32_inj)
  have "imageViewType a = take_bit 4 (?h a)"
    using buffer_image_hash_fields(1) [OF a] by simp
  also have "\<dots> = imageViewType b"
    unfolding e using buffer_image_hash_fields(1) [OF b] by simp
  finally have 1: "imageViewType a = imageViewType b" .
  have "imageAspects a = take_bit 4 (drop_bit 4 (?h a))"
    using buffer_image_hash_fields(2) [OF a] by simp
  also have "\<dots> = imageAspects b"
    unfolding e using buffer_image_hash_fields(2) [OF b] by simp
  finally have 2: "imageAspects a = imageAspects b" .
  have "imageFormat a = take_bit 8 (drop_bit 8 (?h a))"
    using buffer_image_hash_fields(3) [OF a] by simp
  also have "\<dots> = imageFormat b"
    unfolding e using buffer_image_hash_fields(3) [OF b] by simp
  finally have 3: "imageFormat a = imageFormat b" .
  have "bufferFormat a = drop_bit 16 (?h a)"
    using buffer_image_hash_fields(4) [OF a] by simp
  also have "\<dots> = bufferFormat b"
    unfolding e using buffer_image_hash_fields(4) [OF b] by simp
  finally have 4: "bufferFormat a = bufferFormat b" .
  from 1 2 3 4 show ?thesis by simp
qed

lemma image_key_eq_iff: "DxvkMetaImageCopyPipelineKey_eq a b \<longleftrightarrow> a = b"
  by (cases a, cases b) (simp add: DxvkMetaImageCopyPipelineKey_eq_def)

lemma buffer_image_key_eq_iff: "DxvkMetaBufferImageCopyPipelineKey_eq a b \<longleftrightarrow> a = b"
  by (cases a, cases b) (auto simp add: DxvkMetaBufferImageCopyPipelineKey_eq_def)

text \<open>
  Claim C2, as amended. The hash of a key is not injective on all keys, but it is on the
  keys whose fields stay inside the bit range the hash gives them: for an image copy key a
  view type and a sample count below 16 and a format below \<open>2 ^ 24\<close>; for a buffer image
  copy key a view type and an aspect mask below 16, an image format below 256 and a buffer
  format below \<open>2 ^ 16\<close>. Two distinct keys in that range have distinct hashes.
\<close>

theorem hash_injective_on_packed_keys:
  "(viewType a < 16 \<and> samples a < 16 \<and> format a < 2 ^ 24
      \<and> viewType b < 16 \<and> samples b < 16 \<and> format b < 2 ^ 24 \<and> a \<noteq> b
      \<longrightarrow> DxvkMetaImageCopyPipelineKey_hash a \<noteq> DxvkMetaImageCopyPipelineKey_hash b)
   \<and> (imageViewType c < 16 \<and> imageAspects c < 16
      \<and> imageFormat c < 256 \<and> bufferFormat c < 2 ^ 16
      \<and> imageViewType d < 16 \<and> imageAspects d < 16
      \<and> imageFormat d < 256 \<and> bufferFormat d < 2 ^ 16 \<and> c \<noteq> d
      \<longrightarrow> DxvkMetaBufferImageCopyPipelineKey_hash c
          \<noteq> DxvkMetaBufferImageCopyPipelineKey_hash d)"
proof (intro conjI impI)
  assume r: "viewType a < 16 \<and> samples a < 16 \<and> format a < 2 ^ 24
      \<and> viewType b < 16 \<and> samples b < 16 \<and> format b < 2 ^ 24 \<and> a \<noteq> b"
  show "DxvkMetaImageCopyPipelineKey_hash a \<noteq> DxvkMetaImageCopyPipelineKey_hash b"
  proof
    assume "DxvkMetaImageCopyPipelineKey_hash a = DxvkMetaImageCopyPipelineKey_hash b"
    with r have "a = b"
      by (intro image_hash_inj_in_range) simp_all
    with r show False by simp
  qed
next
  assume r: "imageViewType c < 16 \<and> imageAspects c < 16
      \<and> imageFormat c < 256 \<and> bufferFormat c < 2 ^ 16
      \<and> imageViewType d < 16 \<and> imageAspects d < 16
      \<and> imageFormat d < 256 \<and> bufferFormat d < 2 ^ 16 \<and> c \<noteq> d"
  show "DxvkMetaBufferImageCopyPipelineKey_hash c \<noteq> DxvkMetaBufferImageCopyPipelineKey_hash d"
  proof
    assume "DxvkMetaBufferImageCopyPipelineKey_hash c = DxvkMetaBufferImageCopyPipelineKey_hash d"
    with r have "c = d"
      by (intro buffer_image_hash_inj_in_range) simp_all
    with r show False by simp
  qed
qed

theorem hash_injective_on_packed_keys_witness:
  "DxvkMetaImageCopyPipelineKey_hash
      \<lparr> viewType = VK_IMAGE_VIEW_TYPE_2D, format = VK_FORMAT_R8G8B8A8_UNORM,
        samples = VK_SAMPLE_COUNT_1_BIT \<rparr>
    \<noteq> DxvkMetaImageCopyPipelineKey_hash
      \<lparr> viewType = VK_IMAGE_VIEW_TYPE_2D, format = VK_FORMAT_R8G8B8A8_SNORM,
        samples = VK_SAMPLE_COUNT_1_BIT \<rparr>
   \<and> DxvkMetaBufferImageCopyPipelineKey_hash
      \<lparr> imageViewType = VK_IMAGE_VIEW_TYPE_2D, imageFormat = VK_FORMAT_D32_SFLOAT,
        bufferFormat = VK_FORMAT_R32_SFLOAT, imageAspects = VK_IMAGE_ASPECT_DEPTH_BIT \<rparr>
    \<noteq> DxvkMetaBufferImageCopyPipelineKey_hash
      \<lparr> imageViewType = VK_IMAGE_VIEW_TYPE_2D, imageFormat = VK_FORMAT_D16_UNORM,
        bufferFormat = VK_FORMAT_R16_UNORM, imageAspects = VK_IMAGE_ASPECT_DEPTH_BIT \<rparr>"
  using hash_injective_on_packed_keys
    [of "\<lparr> viewType = VK_IMAGE_VIEW_TYPE_2D, format = VK_FORMAT_R8G8B8A8_UNORM,
            samples = VK_SAMPLE_COUNT_1_BIT \<rparr>"
        "\<lparr> viewType = VK_IMAGE_VIEW_TYPE_2D, format = VK_FORMAT_R8G8B8A8_SNORM,
            samples = VK_SAMPLE_COUNT_1_BIT \<rparr>"
        "\<lparr> imageViewType = VK_IMAGE_VIEW_TYPE_2D, imageFormat = VK_FORMAT_D32_SFLOAT,
            bufferFormat = VK_FORMAT_R32_SFLOAT, imageAspects = VK_IMAGE_ASPECT_DEPTH_BIT \<rparr>"
        "\<lparr> imageViewType = VK_IMAGE_VIEW_TYPE_2D, imageFormat = VK_FORMAT_D16_UNORM,
            bufferFormat = VK_FORMAT_R16_UNORM, imageAspects = VK_IMAGE_ASPECT_DEPTH_BIT \<rparr>"]
  by (simp add: VK_IMAGE_VIEW_TYPE_2D_def VK_FORMAT_R8G8B8A8_UNORM_def
      VK_FORMAT_R8G8B8A8_SNORM_def VK_SAMPLE_COUNT_1_BIT_def VK_FORMAT_D32_SFLOAT_def
      VK_FORMAT_R32_SFLOAT_def VK_FORMAT_D16_UNORM_def VK_FORMAT_R16_UNORM_def
      VK_IMAGE_ASPECT_DEPTH_BIT_def)

text \<open>
  Claim C2, as stated, fails: a 2D view of \<^verbatim>\<open>VK_FORMAT_R8G8B8A8_UNORM\<close> with 16
  samples and a 2D view of \<^verbatim>\<open>VK_FORMAT_R8G8B8A8_SNORM\<close> with 32 samples are distinct
  keys with the same hash, because the sample count shifted by 4 reaches the bits of the
  format shifted by 8.
\<close>

theorem hash_collision_counterexample:
  "\<lparr> viewType = VK_IMAGE_VIEW_TYPE_2D, format = VK_FORMAT_R8G8B8A8_UNORM,
      samples = VK_SAMPLE_COUNT_16_BIT \<rparr>
    \<noteq> \<lparr> viewType = VK_IMAGE_VIEW_TYPE_2D, format = VK_FORMAT_R8G8B8A8_SNORM,
        samples = VK_SAMPLE_COUNT_32_BIT \<rparr>
   \<and> DxvkMetaImageCopyPipelineKey_hash
      \<lparr> viewType = VK_IMAGE_VIEW_TYPE_2D, format = VK_FORMAT_R8G8B8A8_UNORM,
        samples = VK_SAMPLE_COUNT_16_BIT \<rparr>
    = DxvkMetaImageCopyPipelineKey_hash
      \<lparr> viewType = VK_IMAGE_VIEW_TYPE_2D, format = VK_FORMAT_R8G8B8A8_SNORM,
        samples = VK_SAMPLE_COUNT_32_BIT \<rparr>"
  by (simp add: DxvkMetaImageCopyPipelineKey_hash_def VK_IMAGE_VIEW_TYPE_2D_def
      VK_FORMAT_R8G8B8A8_UNORM_def VK_FORMAT_R8G8B8A8_SNORM_def
      VK_SAMPLE_COUNT_16_BIT_def VK_SAMPLE_COUNT_32_BIT_def)

text \<open>
  Claim C3. For both key types \<^verbatim>\<open>eq\<close> is reflexive, symmetric and transitive, it
  holds exactly when the two keys agree on every field (which, for these records, is
  equality of the keys), and keys related by \<^verbatim>\<open>eq\<close> have equal hashes.
\<close>

theorem key_eq_equivalence_hash_consistent:
  "DxvkMetaImageCopyPipelineKey_eq a a
   \<and> (DxvkMetaImageCopyPipelineKey_eq a b \<longrightarrow> DxvkMetaImageCopyPipelineKey_eq b a)
   \<and> (DxvkMetaImageCopyPipelineKey_eq a b \<longrightarrow> DxvkMetaImageCopyPipelineKey_eq b c
        \<longrightarrow> DxvkMetaImageCopyPipelineKey_eq a c)
   \<and> (DxvkMetaImageCopyPipelineKey_eq a b \<longleftrightarrow>
        viewType a = viewType b \<and> format a = format b \<and> samples a = samples b)
   \<and> (DxvkMetaImageCopyPipelineKey_eq a b \<longleftrightarrow> a = b)
   \<and> (DxvkMetaImageCopyPipelineKey_eq a b \<longrightarrow>
        DxvkMetaImageCopyPipelineKey_hash a = DxvkMetaImageCopyPipelineKey_hash b)
   \<and> DxvkMetaBufferImageCopyPipelineKey_eq x x
   \<and> (DxvkMetaBufferImageCopyPipelineKey_eq x y \<longrightarrow> DxvkMetaBufferImageCopyPipelineKey_eq y x)
   \<and> (DxvkMetaBufferImageCopyPipelineKey_eq x y \<longrightarrow> DxvkMetaBufferImageCopyPipelineKey_eq y z
        \<longrightarrow> DxvkMetaBufferImageCopyPipelineKey_eq x z)
   \<and> (DxvkMetaBufferImageCopyPipelineKey_eq x y \<longleftrightarrow>
        imageViewType x = imageViewType y \<and> imageFormat x = imageFormat y
        \<and> bufferFormat x = bufferFormat y \<and> imageAspects x = imageAspects y)
   \<and> (DxvkMetaBufferImageCopyPipelineKey_eq x y \<longleftrightarrow> x = y)
   \<and> (DxvkMetaBufferImageCopyPipelineKey_eq x y \<longrightarrow>
        DxvkMetaBufferImageCopyPipelineKey_hash x = DxvkMetaBufferImageCopyPipelineKey_hash y)"
proof -
  have fi: "DxvkMetaImageCopyPipelineKey_eq a b \<longleftrightarrow>
        viewType a = viewType b \<and> format a = format b \<and> samples a = samples b"
    by (simp add: DxvkMetaImageCopyPipelineKey_eq_def)
  have fb: "DxvkMetaBufferImageCopyPipelineKey_eq x y \<longleftrightarrow>
        imageViewType x = imageViewType y \<and> imageFormat x = imageFormat y
        \<and> bufferFormat x = bufferFormat y \<and> imageAspects x = imageAspects y"
    by (auto simp add: DxvkMetaBufferImageCopyPipelineKey_eq_def)
  show ?thesis
    unfolding fi [symmetric] fb [symmetric]
    by (simp add: image_key_eq_iff buffer_image_key_eq_iff)
qed

theorem key_eq_equivalence_hash_consistent_witness:
  "DxvkMetaImageCopyPipelineKey_eq
      \<lparr> viewType = VK_IMAGE_VIEW_TYPE_2D, format = VK_FORMAT_R8G8B8A8_UNORM,
        samples = VK_SAMPLE_COUNT_1_BIT \<rparr>
      \<lparr> viewType = 1, format = 37, samples = 1 \<rparr>
   \<and> DxvkMetaImageCopyPipelineKey_hash
      \<lparr> viewType = VK_IMAGE_VIEW_TYPE_2D, format = VK_FORMAT_R8G8B8A8_UNORM,
        samples = VK_SAMPLE_COUNT_1_BIT \<rparr>
     = DxvkMetaImageCopyPipelineKey_hash \<lparr> viewType = 1, format = 37, samples = 1 \<rparr>
   \<and> DxvkMetaBufferImageCopyPipelineKey_eq
      \<lparr> imageViewType = VK_IMAGE_VIEW_TYPE_2D, imageFormat = VK_FORMAT_D32_SFLOAT,
        bufferFormat = VK_FORMAT_R32_SFLOAT, imageAspects = VK_IMAGE_ASPECT_DEPTH_BIT \<rparr>
      \<lparr> imageViewType = 1, imageFormat = 126, bufferFormat = 100, imageAspects = 2 \<rparr>
   \<and> DxvkMetaBufferImageCopyPipelineKey_hash
      \<lparr> imageViewType = VK_IMAGE_VIEW_TYPE_2D, imageFormat = VK_FORMAT_D32_SFLOAT,
        bufferFormat = VK_FORMAT_R32_SFLOAT, imageAspects = VK_IMAGE_ASPECT_DEPTH_BIT \<rparr>
     = DxvkMetaBufferImageCopyPipelineKey_hash
      \<lparr> imageViewType = 1, imageFormat = 126, bufferFormat = 100, imageAspects = 2 \<rparr>"
  using key_eq_equivalence_hash_consistent
    [of "\<lparr> viewType = VK_IMAGE_VIEW_TYPE_2D, format = VK_FORMAT_R8G8B8A8_UNORM,
            samples = VK_SAMPLE_COUNT_1_BIT \<rparr>"
        "\<lparr> viewType = 1, format = 37, samples = 1 \<rparr>"
        "\<lparr> viewType = 1, format = 37, samples = 1 \<rparr>"
        "\<lparr> imageViewType = VK_IMAGE_VIEW_TYPE_2D, imageFormat = VK_FORMAT_D32_SFLOAT,
            bufferFormat = VK_FORMAT_R32_SFLOAT, imageAspects = VK_IMAGE_ASPECT_DEPTH_BIT \<rparr>"
        "\<lparr> imageViewType = 1, imageFormat = 126, bufferFormat = 100, imageAspects = 2 \<rparr>"
        "\<lparr> imageViewType = 1, imageFormat = 126, bufferFormat = 100, imageAspects = 2 \<rparr>"]
  by (simp add: VK_IMAGE_VIEW_TYPE_2D_def VK_FORMAT_R8G8B8A8_UNORM_def
      VK_SAMPLE_COUNT_1_BIT_def VK_FORMAT_D32_SFLOAT_def VK_FORMAT_R32_SFLOAT_def
      VK_IMAGE_ASPECT_DEPTH_BIT_def)


section \<open>The layout of the push constants\<close>

text \<open>
  Claim C4, as amended. \<^verbatim>\<open>DxvkFormattedBufferCopyArgs\<close> has the members
  \<^verbatim>\<open>dstOffset\<close> (three \<^verbatim>\<open>int32_t\<close>) and a padding word, \<^verbatim>\<open>srcOffset\<close>
  (three \<^verbatim>\<open>int32_t\<close>) and a padding word, \<^verbatim>\<open>extent\<close> (three
  \<^verbatim>\<open>uint32_t\<close>) and a padding word, \<^verbatim>\<open>dstSize\<close> and \<^verbatim>\<open>srcSize\<close> (two
  \<^verbatim>\<open>uint32_t\<close> each), in this order, at the offsets 0, 12, 16, 28, 32, 44, 48 and 56,
  and its size is 64 bytes.
\<close>

theorem DxvkFormattedBufferCopyArgs_layout:
  "map fst DxvkFormattedBufferCopyArgs
     = [''dstOffset'', ''pad0'', ''srcOffset'', ''pad1'', ''extent'', ''pad2'', ''dstSize'', ''srcSize'']
   \<and> map (scalars \<circ> snd) DxvkFormattedBufferCopyArgs
     = [[Int32, Int32, Int32], [UInt32],
        [Int32, Int32, Int32], [UInt32],
        [UInt32, UInt32, UInt32], [UInt32],
        [UInt32, UInt32],
        [UInt32, UInt32]]
   \<and> place 0 DxvkFormattedBufferCopyArgs
     = [(''dstOffset'', 0), (''pad0'', 12), (''srcOffset'', 16), (''pad1'', 28),
        (''extent'', 32), (''pad2'', 44), (''dstSize'', 48), (''srcSize'', 56)]
   \<and> struct_size DxvkFormattedBufferCopyArgs = 64"
  by (simp add: DxvkFormattedBufferCopyArgs_def struct_size_def sizeof_def alignof_def
      align_up_def)

text \<open>
  Claim C4, as stated, fails: the size of the structure is not 48 bytes. The three padded
  vectors alone take 48 bytes, and the two sizes follow them.
\<close>

theorem DxvkFormattedBufferCopyArgs_size_counterexample:
  "struct_size DxvkFormattedBufferCopyArgs \<noteq> 48"
  by (simp add: DxvkFormattedBufferCopyArgs_def struct_size_def sizeof_def alignof_def
      align_up_def)


section \<open>Properties of the tables\<close>

text \<open>
  Since \<^verbatim>\<open>eq\<close> is equality of keys and equal keys have equal hashes, looking a key
  up in a table is looking it up in the association list of its entries.
\<close>

lemma image_find_map_of: "image_find m k = map_of m k"
  by (induction m) (auto simp add: unordered_map_find_def image_key_eq_iff)

lemma buffer_image_find_map_of: "buffer_image_find m k = map_of m k"
  by (induction m) (auto simp add: unordered_map_find_def buffer_image_key_eq_iff)

lemma image_insert_miss:
  "map_of m k = None \<Longrightarrow> image_insert m k v = m @ [(k, v)]"
  by (simp add: unordered_map_insert_def image_find_map_of)

lemma buffer_image_insert_miss:
  "map_of m k = None \<Longrightarrow> buffer_image_insert m k v = m @ [(k, v)]"
  by (simp add: unordered_map_insert_def buffer_image_find_map_of)

lemma count_filter_fst:
  "distinct (map fst m) \<Longrightarrow>
     length (filter (\<lambda>entry. fst entry = k) m) = (if k \<in> fst ` set m then 1 else 0)"
  by (induction m) (auto simp add: image_iff)

lemma image_count_filter: "image_count m k = length (filter (\<lambda>entry. fst entry = k) m)"
  unfolding unordered_map_count_def
  by (rule arg_cong [where f = length], rule filter_cong) (auto simp add: image_key_eq_iff)

lemma image_count_distinct:
  "distinct (map fst m) \<Longrightarrow> image_count m k = (if k \<in> fst ` set m then 1 else 0)"
  by (simp only: image_count_filter count_filter_fst)

lemma buffer_image_count_filter:
  "buffer_image_count m k = length (filter (\<lambda>entry. fst entry = k) m)"
  unfolding unordered_map_count_def
  by (rule arg_cong [where f = length], rule filter_cong) (auto simp add: buffer_image_key_eq_iff)

lemma buffer_image_count_distinct:
  "distinct (map fst m) \<Longrightarrow> buffer_image_count m k = (if k \<in> fst ` set m then 1 else 0)"
  by (simp only: buffer_image_count_filter count_filter_fst)

lemma table_inv_empty: "table_inv [] req []"
  by (simp add: table_inv_def)

lemma table_inv_insert:
  assumes "table_inv m req log" and "map_of m k = None" and "inj req"
  shows "table_inv (m @ [(k, p)]) req (log @ [req k])"
  using assms
  by (auto simp add: table_inv_def map_of_eq_None_iff inj_eq)

lemma table_inv_other:
  assumes "table_inv m req log" and "\<And>k. req k \<noteq> r"
  shows "table_inv m req (log @ [r])"
  using assms by (auto simp add: table_inv_def)


lemma getCopyImagePipeline_hit:
  assumes "map_of (m_copyImagePipelines this) \<lparr> viewType = vt, format = f, samples = n \<rparr> = Some p"
  shows "getCopyImagePipeline ext vt f n this = (Inr p, this)"
  using assms by (simp add: getCopyImagePipeline_def image_find_map_of)

lemma getCopyImagePipeline_miss_fail:
  assumes "map_of (m_copyImagePipelines this) \<lparr> viewType = vt, format = f, samples = n \<rparr> = None"
    and "vkCreatePipeline ext (created (m_device this))
           (CopyImage \<lparr> viewType = vt, format = f, samples = n \<rparr>) = Inl err"
  shows "getCopyImagePipeline ext vt f n this = (Inl err, this)"
  using assms
  by (simp add: getCopyImagePipeline_def image_find_map_of createCopyImagePipeline_def
      createPipeline_def)

lemma getCopyImagePipeline_miss_ok:
  assumes "map_of (m_copyImagePipelines this) \<lparr> viewType = vt, format = f, samples = n \<rparr> = None"
    and "vkCreatePipeline ext (created (m_device this))
           (CopyImage \<lparr> viewType = vt, format = f, samples = n \<rparr>) = Inr p"
  shows "getCopyImagePipeline ext vt f n this =
     (Inr p, this\<lparr> m_device := \<lparr> created = created (m_device this)
                       @ [CopyImage \<lparr> viewType = vt, format = f, samples = n \<rparr>] \<rparr>,
                   m_copyImagePipelines := m_copyImagePipelines this
                       @ [(\<lparr> viewType = vt, format = f, samples = n \<rparr>, p)] \<rparr>)"
  using assms
  by (simp add: getCopyImagePipeline_def image_find_map_of createCopyImagePipeline_def
      createPipeline_def image_insert_miss Let_def)


lemma getCopyBufferToImagePipeline_hit:
  assumes "map_of (m_bufferToImagePipelines this)
             (DxvkMetaBufferImageCopyPipelineKey_default
                \<lparr> imageFormat := d, bufferFormat := f, imageAspects := a \<rparr>) = Some p"
  shows "getCopyBufferToImagePipeline ext d f a this = (Inr p, this)"
  using assms by (simp add: getCopyBufferToImagePipeline_def buffer_image_find_map_of)

lemma getCopyBufferToImagePipeline_miss_fail:
  assumes "map_of (m_bufferToImagePipelines this)
             (DxvkMetaBufferImageCopyPipelineKey_default
                \<lparr> imageFormat := d, bufferFormat := f, imageAspects := a \<rparr>) = None"
    and "vkCreatePipeline ext (created (m_device this))
           (BufferToImage (DxvkMetaBufferImageCopyPipelineKey_default
                \<lparr> imageFormat := d, bufferFormat := f, imageAspects := a \<rparr>)) = Inl err"
  shows "getCopyBufferToImagePipeline ext d f a this = (Inl err, this)"
  using assms
  by (simp add: getCopyBufferToImagePipeline_def buffer_image_find_map_of
      createCopyBufferToImagePipeline_def createPipeline_def)

lemma getCopyBufferToImagePipeline_miss_ok:
  assumes "map_of (m_bufferToImagePipelines this)
             (DxvkMetaBufferImageCopyPipelineKey_default
                \<lparr> imageFormat := d, bufferFormat := f, imageAspects := a \<rparr>) = None"
    and "vkCreatePipeline ext (created (m_device this))
           (BufferToImage (DxvkMetaBufferImageCopyPipelineKey_default
                \<lparr> imageFormat := d, bufferFormat := f, imageAspects := a \<rparr>)) = Inr p"
  shows "getCopyBufferToImagePipeline ext d f a this =
     (Inr p, this\<lparr> m_device := \<lparr> created = created (m_device this)
                       @ [BufferToImage (DxvkMetaBufferImageCopyPipelineKey_default
                            \<lparr> imageFormat := d, bufferFormat := f, imageAspects := a \<rparr>)] \<rparr>,
                   m_bufferToImagePipelines := m_bufferToImagePipelines this
                       @ [(DxvkMetaBufferImageCopyPipelineKey_default
                            \<lparr> imageFormat := d, bufferFormat := f, imageAspects := a \<rparr>, p)] \<rparr>)"
  using assms
  by (simp add: getCopyBufferToImagePipeline_def buffer_image_find_map_of
      createCopyBufferToImagePipeline_def createPipeline_def buffer_image_insert_miss Let_def)

lemma getCopyImageToBufferPipeline_hit:
  assumes "map_of (m_imageToBufferPipelines this)
             (DxvkMetaBufferImageCopyPipelineKey_default
                \<lparr> imageViewType := vt, bufferFormat := f \<rparr>) = Some p"
  shows "getCopyImageToBufferPipeline ext vt f this = (Inr p, this)"
  using assms by (simp add: getCopyImageToBufferPipeline_def buffer_image_find_map_of)

lemma getCopyImageToBufferPipeline_miss_fail:
  assumes "map_of (m_imageToBufferPipelines this)
             (DxvkMetaBufferImageCopyPipelineKey_default
                \<lparr> imageViewType := vt, bufferFormat := f \<rparr>) = None"
    and "vkCreatePipeline ext (created (m_device this))
           (ImageToBuffer (DxvkMetaBufferImageCopyPipelineKey_default
                \<lparr> imageViewType := vt, bufferFormat := f \<rparr>)) = Inl err"
  shows "getCopyImageToBufferPipeline ext vt f this = (Inl err, this)"
  using assms
  by (simp add: getCopyImageToBufferPipeline_def buffer_image_find_map_of
      createCopyImageToBufferPipeline_def createPipeline_def)

lemma getCopyImageToBufferPipeline_miss_ok:
  assumes "map_of (m_imageToBufferPipelines this)
             (DxvkMetaBufferImageCopyPipelineKey_default
                \<lparr> imageViewType := vt, bufferFormat := f \<rparr>) = None"
    and "vkCreatePipeline ext (created (m_device this))
           (ImageToBuffer (DxvkMetaBufferImageCopyPipelineKey_default
                \<lparr> imageViewType := vt, bufferFormat := f \<rparr>)) = Inr p"
  shows "getCopyImageToBufferPipeline ext vt f this =
     (Inr p, this\<lparr> m_device := \<lparr> created = created (m_device this)
                       @ [ImageToBuffer (DxvkMetaBufferImageCopyPipelineKey_default
                            \<lparr> imageViewType := vt, bufferFormat := f \<rparr>)] \<rparr>,
                   m_imageToBufferPipelines := m_imageToBufferPipelines this
                       @ [(DxvkMetaBufferImageCopyPipelineKey_default
                            \<lparr> imageViewType := vt, bufferFormat := f \<rparr>, p)] \<rparr>)"
  using assms
  by (simp add: getCopyImageToBufferPipeline_def buffer_image_find_map_of
      createCopyImageToBufferPipeline_def createPipeline_def buffer_image_insert_miss Let_def)

lemma getCopyFormattedBufferPipeline_hit:
  assumes "pipeline (m_copyBufferImagePipeline this) \<noteq> VK_NULL_HANDLE"
  shows "getCopyFormattedBufferPipeline ext this = (Inr (m_copyBufferImagePipeline this), this)"
  using assms by (simp add: getCopyFormattedBufferPipeline_def)

lemma getCopyFormattedBufferPipeline_miss_fail:
  assumes "pipeline (m_copyBufferImagePipeline this) = VK_NULL_HANDLE"
    and "vkCreatePipeline ext (created (m_device this)) FormattedBuffer = Inl err"
  shows "getCopyFormattedBufferPipeline ext this = (Inl err, this)"
  using assms
  by (simp add: getCopyFormattedBufferPipeline_def createCopyFormattedBufferPipeline_def
      createPipeline_def)

lemma getCopyFormattedBufferPipeline_miss_ok:
  assumes "pipeline (m_copyBufferImagePipeline this) = VK_NULL_HANDLE"
    and "vkCreatePipeline ext (created (m_device this)) FormattedBuffer = Inr p"
  shows "getCopyFormattedBufferPipeline ext this =
     (Inr p, this\<lparr> m_device := \<lparr> created = created (m_device this) @ [FormattedBuffer] \<rparr>,
                   m_copyBufferImagePipeline := p \<rparr>)"
  using assms
  by (simp add: getCopyFormattedBufferPipeline_def createCopyFormattedBufferPipeline_def
      createPipeline_def)

text \<open>What one call can do to the cache.\<close>

lemma call_cases [case_names same image bufferToImage imageToBuffer slot]:
  obtains "snd (call ext c this) = this"
  | k p where "map_of (m_copyImagePipelines this) k = None"
      and "snd (call ext c this) =
             this\<lparr> m_device := \<lparr> created = created (m_device this) @ [CopyImage k] \<rparr>,
                   m_copyImagePipelines := m_copyImagePipelines this @ [(k, p)] \<rparr>"
  | k p where "map_of (m_bufferToImagePipelines this) k = None"
      and "snd (call ext c this) =
             this\<lparr> m_device := \<lparr> created = created (m_device this) @ [BufferToImage k] \<rparr>,
                   m_bufferToImagePipelines := m_bufferToImagePipelines this @ [(k, p)] \<rparr>"
  | k p where "map_of (m_imageToBufferPipelines this) k = None"
      and "snd (call ext c this) =
             this\<lparr> m_device := \<lparr> created = created (m_device this) @ [ImageToBuffer k] \<rparr>,
                   m_imageToBufferPipelines := m_imageToBufferPipelines this @ [(k, p)] \<rparr>"
  | p where "pipeline (m_copyBufferImagePipeline this) = VK_NULL_HANDLE"
      and "snd (call ext c this) =
             this\<lparr> m_device := \<lparr> created = created (m_device this) @ [FormattedBuffer] \<rparr>,
                   m_copyBufferImagePipeline := p \<rparr>"
proof (cases c)
  case (GetCopyImageFormats d da s sa)
  then show ?thesis
    using that(1) by (simp add: returning_def getCopyImageFormats_def)
next
  case (GetCopyBufferToImagePipeline d f a)
  let ?k = "DxvkMetaBufferImageCopyPipelineKey_default
              \<lparr> imageFormat := d, bufferFormat := f, imageAspects := a \<rparr>"
  show ?thesis
  proof (cases "map_of (m_bufferToImagePipelines this) ?k")
    case (Some p)
    then show ?thesis
      using that(1) GetCopyBufferToImagePipeline
      by (simp add: returning_def getCopyBufferToImagePipeline_hit)
  next
    case None
    show ?thesis
    proof (cases "vkCreatePipeline ext (created (m_device this)) (BufferToImage ?k)")
      case (Inl err)
      then show ?thesis
        using that(1) GetCopyBufferToImagePipeline None
        by (simp add: returning_def getCopyBufferToImagePipeline_miss_fail)
    next
      case (Inr p)
      then show ?thesis
        using that(3) [of ?k p] GetCopyBufferToImagePipeline None
        by (simp add: returning_def getCopyBufferToImagePipeline_miss_ok)
    qed
  qed
next
  case (GetCopyImageToBufferPipeline vt f)
  let ?k = "DxvkMetaBufferImageCopyPipelineKey_default
              \<lparr> imageViewType := vt, bufferFormat := f \<rparr>"
  show ?thesis
  proof (cases "map_of (m_imageToBufferPipelines this) ?k")
    case (Some p)
    then show ?thesis
      using that(1) GetCopyImageToBufferPipeline
      by (simp add: returning_def getCopyImageToBufferPipeline_hit)
  next
    case None
    show ?thesis
    proof (cases "vkCreatePipeline ext (created (m_device this)) (ImageToBuffer ?k)")
      case (Inl err)
      then show ?thesis
        using that(1) GetCopyImageToBufferPipeline None
        by (simp add: returning_def getCopyImageToBufferPipeline_miss_fail)
    next
      case (Inr p)
      then show ?thesis
        using that(4) [of ?k p] GetCopyImageToBufferPipeline None
        by (simp add: returning_def getCopyImageToBufferPipeline_miss_ok)
    qed
  qed
next
  case (GetCopyImagePipeline vt f n)
  let ?k = "\<lparr> viewType = vt, format = f, samples = n \<rparr>"
  show ?thesis
  proof (cases "map_of (m_copyImagePipelines this) ?k")
    case (Some p)
    then show ?thesis
      using that(1) GetCopyImagePipeline
      by (simp add: returning_def getCopyImagePipeline_hit)
  next
    case None
    show ?thesis
    proof (cases "vkCreatePipeline ext (created (m_device this)) (CopyImage ?k)")
      case (Inl err)
      then show ?thesis
        using that(1) GetCopyImagePipeline None
        by (simp add: returning_def getCopyImagePipeline_miss_fail)
    next
      case (Inr p)
      then show ?thesis
        using that(2) [of ?k p] GetCopyImagePipeline None
        by (simp add: returning_def getCopyImagePipeline_miss_ok)
    qed
  qed
next
  case GetCopyFormattedBufferPipeline
  show ?thesis
  proof (cases "pipeline (m_copyBufferImagePipeline this) = VK_NULL_HANDLE")
    case False
    then show ?thesis
      using that(1) GetCopyFormattedBufferPipeline
      by (simp add: returning_def getCopyFormattedBufferPipeline_hit)
  next
    case True
    show ?thesis
    proof (cases "vkCreatePipeline ext (created (m_device this)) FormattedBuffer")
      case (Inl err)
      then show ?thesis
        using that(1) GetCopyFormattedBufferPipeline True
        by (simp add: returning_def getCopyFormattedBufferPipeline_miss_fail)
    next
      case (Inr p)
      then show ?thesis
        using that(5) [of p] GetCopyFormattedBufferPipeline True
        by (simp add: returning_def getCopyFormattedBufferPipeline_miss_ok)
    qed
  qed
qed

lemma cache_inv_new: "cache_inv (DxvkMetaCopyObjects_new \<lparr> created = [] \<rparr>)"
  by (simp add: cache_inv_def DxvkMetaCopyObjects_new_def table_inv_empty)

lemma cache_inv_call:
  assumes "cache_inv this"
  shows "cache_inv (snd (call ext c this))"
proof (cases rule: call_cases [of ext c this])
  case same
  then show ?thesis using assms by simp
next
  case (image k p)
  then show ?thesis
    using assms
    by (simp add: cache_inv_def table_inv_insert table_inv_other inj_def)
next
  case (bufferToImage k p)
  then show ?thesis
    using assms
    by (simp add: cache_inv_def table_inv_insert table_inv_other inj_def)
next
  case (imageToBuffer k p)
  then show ?thesis
    using assms
    by (simp add: cache_inv_def table_inv_insert table_inv_other inj_def)
next
  case (slot p)
  then show ?thesis
    using assms
    by (simp add: cache_inv_def table_inv_other)
qed

lemma reachable_cache_inv: "reachable ext this \<Longrightarrow> cache_inv this"
  by (induction rule: reachable.induct) (simp_all add: cache_inv_new cache_inv_call)

lemma call_keeps_entries:
  "(map_of (m_copyImagePipelines this) ki = Some p
      \<longrightarrow> map_of (m_copyImagePipelines (snd (call ext c this))) ki = Some p)
   \<and> (map_of (m_bufferToImagePipelines this) kb = Some q
      \<longrightarrow> map_of (m_bufferToImagePipelines (snd (call ext c this))) kb = Some q)
   \<and> (map_of (m_imageToBufferPipelines this) kc = Some r
      \<longrightarrow> map_of (m_imageToBufferPipelines (snd (call ext c this))) kc = Some r)"
  by (cases rule: call_cases [of ext c this]) (simp_all add: map_add_Some_iff)

lemma call_keeps_slot:
  assumes "pipeline (m_copyBufferImagePipeline this) \<noteq> VK_NULL_HANDLE"
  shows "m_copyBufferImagePipeline (snd (call ext c this)) = m_copyBufferImagePipeline this"
  using assms by (cases rule: call_cases [of ext c this]) simp_all

lemma calls_hits:
  assumes "map_of (m_copyImagePipelines this) \<lparr> viewType = vt, format = f, samples = s \<rparr> = Some p"
  shows "calls ext (replicate n (GetCopyImagePipeline vt f s)) this
           = (replicate n (Inr (Pipeline p)), this)"
  using assms
  by (induction n) (simp_all add: returning_def getCopyImagePipeline_hit)

lemma cache_inv_image_count:
  assumes "cache_inv this"
  shows "image_count (m_copyImagePipelines this) k = count_list (created (m_device this)) (CopyImage k)"
    and "buffer_image_count (m_bufferToImagePipelines this) kb
           = count_list (created (m_device this)) (BufferToImage kb)"
    and "buffer_image_count (m_imageToBufferPipelines this) kb
           = count_list (created (m_device this)) (ImageToBuffer kb)"
    and "count_list (created (m_device this)) (CopyImage k) \<le> 1"
    and "count_list (created (m_device this)) (BufferToImage kb) \<le> 1"
    and "count_list (created (m_device this)) (ImageToBuffer kb) \<le> 1"
  using assms
  by (simp_all add: cache_inv_def table_inv_def image_count_distinct buffer_image_count_distinct)

lemma cache_inv_present:
  assumes "cache_inv this" and "map_of (m_copyImagePipelines this) k = Some p"
  shows "count_list (created (m_device this)) (CopyImage k) = 1"
proof -
  have "k \<in> fst ` set (m_copyImagePipelines this)"
    using assms(2) by (metis map_of_eq_None_iff option.distinct(1))
  then show ?thesis
    using assms(1) by (simp add: cache_inv_def table_inv_def)
qed

lemma call_keeps_tables:
  "take (length (m_copyImagePipelines this)) (m_copyImagePipelines (snd (call ext c this)))
      = m_copyImagePipelines this
   \<and> take (length (m_bufferToImagePipelines this)) (m_bufferToImagePipelines (snd (call ext c this)))
      = m_bufferToImagePipelines this
   \<and> take (length (m_imageToBufferPipelines this)) (m_imageToBufferPipelines (snd (call ext c this)))
      = m_imageToBufferPipelines this"
  by (cases rule: call_cases [of ext c this]) simp_all

lemma take_take_prefix:
  assumes "take (length xs) ys = xs" and "take (length ys) zs = ys"
  shows "take (length xs) zs = xs"
proof -
  have "length (take (length xs) ys) = length xs"
    using assms(1) by simp
  then have "length xs \<le> length ys"
    by simp
  then have "take (length xs) zs = take (length xs) (take (length ys) zs)"
    by (simp add: min_def)
  then show ?thesis
    using assms by simp
qed

lemma calls_keep_entries:
  "(map_of (m_copyImagePipelines this) ki = Some p
      \<longrightarrow> map_of (m_copyImagePipelines (snd (calls ext cs this))) ki = Some p)
   \<and> (map_of (m_bufferToImagePipelines this) kb = Some q
      \<longrightarrow> map_of (m_bufferToImagePipelines (snd (calls ext cs this))) kb = Some q)
   \<and> (map_of (m_imageToBufferPipelines this) kc = Some r
      \<longrightarrow> map_of (m_imageToBufferPipelines (snd (calls ext cs this))) kc = Some r)"
proof (induction cs arbitrary: this)
  case Nil
  show ?case by simp
next
  case (Cons c cs)
  show ?case
    using call_keeps_entries [of this ki p ext c kb q kc r] Cons.IH [of "snd (call ext c this)"]
    by simp
qed

lemma calls_keep_tables:
  "take (length (m_copyImagePipelines this)) (m_copyImagePipelines (snd (calls ext cs this)))
      = m_copyImagePipelines this
   \<and> take (length (m_bufferToImagePipelines this)) (m_bufferToImagePipelines (snd (calls ext cs this)))
      = m_bufferToImagePipelines this
   \<and> take (length (m_imageToBufferPipelines this)) (m_imageToBufferPipelines (snd (calls ext cs this)))
      = m_imageToBufferPipelines this"
proof (induction cs arbitrary: this)
  case Nil
  show ?case by simp
next
  case (Cons c cs)
  show ?case
    using call_keeps_tables [of this ext c] Cons.IH [of "snd (call ext c this)"]
    by (auto intro: take_take_prefix)
qed

lemma calls_keep_slot:
  assumes "pipeline (m_copyBufferImagePipeline this) \<noteq> VK_NULL_HANDLE"
  shows "m_copyBufferImagePipeline (snd (calls ext cs this)) = m_copyBufferImagePipeline this"
  using assms
proof (induction cs arbitrary: this)
  case Nil
  show ?case by simp
next
  case (Cons c cs)
  have "m_copyBufferImagePipeline (snd (call ext c this)) = m_copyBufferImagePipeline this"
    using Cons.prems by (rule call_keeps_slot)
  then show ?case
    using Cons.IH [of "snd (call ext c this)"] Cons.prems by simp
qed

lemma in_keys_of_map_of: "map_of m k = Some p \<Longrightarrow> k \<in> fst ` set m"
  by (metis map_of_eq_None_iff option.distinct(1))

lemma getCopyBufferToImagePipeline_twice:
  assumes inv: "cache_inv this"
    and ok: "fst (getCopyBufferToImagePipeline ext d f a this) = Inr q"
  shows "getCopyBufferToImagePipeline ext d f a (snd (getCopyBufferToImagePipeline ext d f a this))
           = (Inr q, snd (getCopyBufferToImagePipeline ext d f a this))
       \<and> buffer_image_count
             (m_bufferToImagePipelines (snd (getCopyBufferToImagePipeline ext d f a this)))
             (DxvkMetaBufferImageCopyPipelineKey_default
                \<lparr> imageFormat := d, bufferFormat := f, imageAspects := a \<rparr>) = 1"
proof -
  let ?k = "DxvkMetaBufferImageCopyPipelineKey_default
              \<lparr> imageFormat := d, bufferFormat := f, imageAspects := a \<rparr>"
  let ?s1 = "snd (getCopyBufferToImagePipeline ext d f a this)"
  have "?s1 = snd (call ext (GetCopyBufferToImagePipeline d f a) this)"
    by (simp add: returning_def)
  then have inv1: "cache_inv ?s1"
    using cache_inv_call [OF inv, of ext "GetCopyBufferToImagePipeline d f a"] by simp
  have stored: "map_of (m_bufferToImagePipelines ?s1) ?k = Some q"
  proof (cases "map_of (m_bufferToImagePipelines this) ?k")
    case (Some p)
    then show ?thesis
      using ok by (simp add: getCopyBufferToImagePipeline_hit)
  next
    case None
    show ?thesis
    proof (cases "vkCreatePipeline ext (created (m_device this)) (BufferToImage ?k)")
      case (Inl err)
      then show ?thesis
        using ok None by (simp add: getCopyBufferToImagePipeline_miss_fail)
    next
      case (Inr p)
      then show ?thesis
        using ok None by (simp add: getCopyBufferToImagePipeline_miss_ok map_add_Some_iff)
    qed
  qed
  have "buffer_image_count (m_bufferToImagePipelines ?s1) ?k = 1"
    using inv1 in_keys_of_map_of [OF stored]
    by (simp add: cache_inv_def table_inv_def buffer_image_count_distinct)
  then show ?thesis
    using getCopyBufferToImagePipeline_hit [OF stored, of ext] by simp
qed

lemma getCopyImageToBufferPipeline_twice:
  assumes inv: "cache_inv this"
    and ok: "fst (getCopyImageToBufferPipeline ext vt f this) = Inr q"
  shows "getCopyImageToBufferPipeline ext vt f (snd (getCopyImageToBufferPipeline ext vt f this))
           = (Inr q, snd (getCopyImageToBufferPipeline ext vt f this))
       \<and> buffer_image_count
             (m_imageToBufferPipelines (snd (getCopyImageToBufferPipeline ext vt f this)))
             (DxvkMetaBufferImageCopyPipelineKey_default
                \<lparr> imageViewType := vt, bufferFormat := f \<rparr>) = 1"
proof -
  let ?k = "DxvkMetaBufferImageCopyPipelineKey_default \<lparr> imageViewType := vt, bufferFormat := f \<rparr>"
  let ?s1 = "snd (getCopyImageToBufferPipeline ext vt f this)"
  have "?s1 = snd (call ext (GetCopyImageToBufferPipeline vt f) this)"
    by (simp add: returning_def)
  then have inv1: "cache_inv ?s1"
    using cache_inv_call [OF inv, of ext "GetCopyImageToBufferPipeline vt f"] by simp
  have stored: "map_of (m_imageToBufferPipelines ?s1) ?k = Some q"
  proof (cases "map_of (m_imageToBufferPipelines this) ?k")
    case (Some p)
    then show ?thesis
      using ok by (simp add: getCopyImageToBufferPipeline_hit)
  next
    case None
    show ?thesis
    proof (cases "vkCreatePipeline ext (created (m_device this)) (ImageToBuffer ?k)")
      case (Inl err)
      then show ?thesis
        using ok None by (simp add: getCopyImageToBufferPipeline_miss_fail)
    next
      case (Inr p)
      then show ?thesis
        using ok None by (simp add: getCopyImageToBufferPipeline_miss_ok map_add_Some_iff)
    qed
  qed
  have "buffer_image_count (m_imageToBufferPipelines ?s1) ?k = 1"
    using inv1 in_keys_of_map_of [OF stored]
    by (simp add: cache_inv_def table_inv_def buffer_image_count_distinct)
  then show ?thesis
    using getCopyImageToBufferPipeline_hit [OF stored, of ext] by simp
qed

lemmas example_eval =
  example_externals_def DxvkMetaCopyObjects_new_def DxvkMetaCopyPipeline_default_def
  getCopyImagePipeline_def getCopyFormattedBufferPipeline_def
  getCopyBufferToImagePipeline_def getCopyImageToBufferPipeline_def
  createCopyImagePipeline_def createCopyFormattedBufferPipeline_def
  createCopyBufferToImagePipeline_def createCopyImageToBufferPipeline_def
  createPipeline_def returning_def
  unordered_map_find_def unordered_map_insert_def unordered_map_count_def
  DxvkMetaImageCopyPipelineKey_eq_def DxvkMetaImageCopyPipelineKey_hash_def
  DxvkMetaBufferImageCopyPipelineKey_eq_def DxvkMetaBufferImageCopyPipelineKey_hash_def
  DxvkMetaBufferImageCopyPipelineKey_default_def
  VK_IMAGE_VIEW_TYPE_2D_def VK_FORMAT_R8G8B8A8_UNORM_def VK_SAMPLE_COUNT_1_BIT_def
  VK_NULL_HANDLE_def VK_FORMAT_UNDEFINED_def VK_IMAGE_VIEW_TYPE_MAX_ENUM_def
  VK_FORMAT_D32_SFLOAT_def VK_FORMAT_R32_SFLOAT_def VK_IMAGE_ASPECT_DEPTH_BIT_def
  Let_def numeral_2_eq_2


section \<open>Properties of the cache\<close>

text \<open>
  Claim C1. Take a cache in any state it can reach after its construction, a configuration
  (view type, format, sample count) and a number \<open>n > 0\<close> of calls of
  \<^verbatim>\<open>getCopyImagePipeline\<close> with that configuration, and let the device build the
  pipeline without a fatal error if it is asked to. Then all \<open>n\<close> calls return the same
  pipeline, a further call with a key that is \<^verbatim>\<open>eq\<close> to the configuration returns
  it too and changes nothing, the table holds exactly one entry for the key, the device
  has built exactly one pipeline for the key in its whole history, and during the
  \<open>n\<close> calls it has built one pipeline if the key was not in the table before and none
  otherwise. In the state reached, each of the three tables holds for every key as many
  entries as the device has built pipelines for it, and that is at most one. The other two
  kinds of key behave alike: when \<^verbatim>\<open>getCopyBufferToImagePipeline\<close> or
  \<^verbatim>\<open>getCopyImageToBufferPipeline\<close> returns a pipeline, the same lookup made again
  returns that pipeline and changes nothing, and the table holds exactly one entry for the
  key.
\<close>

theorem getCopyImagePipeline_creates_once:
  assumes "reachable ext this"
    and "0 < n"
    and "image_find (m_copyImagePipelines this) \<lparr> viewType = vt, format = f, samples = s \<rparr> = None
         \<longrightarrow> (\<exists>p. vkCreatePipeline ext (created (m_device this))
                  (CopyImage \<lparr> viewType = vt, format = f, samples = s \<rparr>) = Inr p)"
    and "DxvkMetaImageCopyPipelineKey_eq \<lparr> viewType = vt', format = f', samples = s' \<rparr>
           \<lparr> viewType = vt, format = f, samples = s \<rparr>"
  shows "(\<exists>p. let key = \<lparr> viewType = vt, format = f, samples = s \<rparr>;
               run = calls ext (replicate n (GetCopyImagePipeline vt f s)) this;
               this' = snd run in
           fst run = replicate n (Inr (Pipeline p))
         \<and> call ext (GetCopyImagePipeline vt' f' s') this' = (Inr (Pipeline p), this')
         \<and> image_find (m_copyImagePipelines this') key = Some p
         \<and> image_count (m_copyImagePipelines this') key = 1
         \<and> count_list (created (m_device this')) (CopyImage key) = 1
         \<and> created (m_device this') = created (m_device this) @
              (if image_find (m_copyImagePipelines this) key = None then [CopyImage key] else [])
         \<and> image_count (m_copyImagePipelines this') k
              = count_list (created (m_device this')) (CopyImage k)
         \<and> buffer_image_count (m_bufferToImagePipelines this') kb
              = count_list (created (m_device this')) (BufferToImage kb)
         \<and> buffer_image_count (m_imageToBufferPipelines this') kb
              = count_list (created (m_device this')) (ImageToBuffer kb)
         \<and> count_list (created (m_device this')) (CopyImage k) \<le> 1
         \<and> count_list (created (m_device this')) (BufferToImage kb) \<le> 1
         \<and> count_list (created (m_device this')) (ImageToBuffer kb) \<le> 1)
     \<and> (fst (getCopyBufferToImagePipeline ext bd bs ba this) = Inr q \<longrightarrow>
           getCopyBufferToImagePipeline ext bd bs ba
               (snd (getCopyBufferToImagePipeline ext bd bs ba this))
             = (Inr q, snd (getCopyBufferToImagePipeline ext bd bs ba this))
         \<and> buffer_image_count
               (m_bufferToImagePipelines (snd (getCopyBufferToImagePipeline ext bd bs ba this)))
               (DxvkMetaBufferImageCopyPipelineKey_default
                  \<lparr> imageFormat := bd, bufferFormat := bs, imageAspects := ba \<rparr>) = 1)
     \<and> (fst (getCopyImageToBufferPipeline ext iv idf this) = Inr r \<longrightarrow>
           getCopyImageToBufferPipeline ext iv idf
               (snd (getCopyImageToBufferPipeline ext iv idf this))
             = (Inr r, snd (getCopyImageToBufferPipeline ext iv idf this))
         \<and> buffer_image_count
               (m_imageToBufferPipelines (snd (getCopyImageToBufferPipeline ext iv idf this)))
               (DxvkMetaBufferImageCopyPipelineKey_default
                  \<lparr> imageViewType := iv, bufferFormat := idf \<rparr>) = 1)"
    (is "(\<exists>p. ?Q p) \<and> _")
proof (intro conjI impI)
  have inv0: "cache_inv this"
    using assms(1) by (rule reachable_cache_inv)
  show "getCopyBufferToImagePipeline ext bd bs ba
               (snd (getCopyBufferToImagePipeline ext bd bs ba this))
             = (Inr q, snd (getCopyBufferToImagePipeline ext bd bs ba this))"
    if "fst (getCopyBufferToImagePipeline ext bd bs ba this) = Inr q"
    using getCopyBufferToImagePipeline_twice [OF inv0 that] by (rule conjunct1)
  show "buffer_image_count
               (m_bufferToImagePipelines (snd (getCopyBufferToImagePipeline ext bd bs ba this)))
               (DxvkMetaBufferImageCopyPipelineKey_default
                  \<lparr> imageFormat := bd, bufferFormat := bs, imageAspects := ba \<rparr>) = 1"
    if "fst (getCopyBufferToImagePipeline ext bd bs ba this) = Inr q"
    using getCopyBufferToImagePipeline_twice [OF inv0 that] by (rule conjunct2)
  show "getCopyImageToBufferPipeline ext iv idf
               (snd (getCopyImageToBufferPipeline ext iv idf this))
             = (Inr r, snd (getCopyImageToBufferPipeline ext iv idf this))"
    if "fst (getCopyImageToBufferPipeline ext iv idf this) = Inr r"
    using getCopyImageToBufferPipeline_twice [OF inv0 that] by (rule conjunct1)
  show "buffer_image_count
               (m_imageToBufferPipelines (snd (getCopyImageToBufferPipeline ext iv idf this)))
               (DxvkMetaBufferImageCopyPipelineKey_default
                  \<lparr> imageViewType := iv, bufferFormat := idf \<rparr>) = 1"
    if "fst (getCopyImageToBufferPipeline ext iv idf this) = Inr r"
    using getCopyImageToBufferPipeline_twice [OF inv0 that] by (rule conjunct2)
next
  let ?key = "\<lparr> viewType = vt, format = f, samples = s \<rparr>"
  let ?c = "GetCopyImagePipeline vt f s"
  obtain m where n: "n = Suc m"
    using assms(2) by (cases n) simp_all
  have same: "vt' = vt" "f' = f" "s' = s"
    using assms(4) by (simp_all add: DxvkMetaImageCopyPipelineKey_eq_def)
  obtain p where first: "fst (call ext ?c this) = Inr (Pipeline p)"
    and stored: "map_of (m_copyImagePipelines (snd (call ext ?c this))) ?key = Some p"
    and log: "created (m_device (snd (call ext ?c this))) = created (m_device this) @
                (if map_of (m_copyImagePipelines this) ?key = None then [CopyImage ?key] else [])"
  proof (cases "map_of (m_copyImagePipelines this) ?key")
    case (Some p)
    then show ?thesis
      using that [of p] by (simp add: returning_def getCopyImagePipeline_hit)
  next
    case None
    then obtain p where "vkCreatePipeline ext (created (m_device this)) (CopyImage ?key) = Inr p"
      using assms(3) by (auto simp add: image_find_map_of)
    then show ?thesis
      using that [of p] None
      by (simp add: returning_def getCopyImagePipeline_miss_ok map_add_Some_iff)
  qed
  let ?s1 = "snd (call ext ?c this)"
  have run: "calls ext (replicate n ?c) this = (replicate n (Inr (Pipeline p)), ?s1)"
    using first calls_hits [OF stored, of ext m] by (simp add: n)
  have again: "call ext (GetCopyImagePipeline vt' f' s') ?s1 = (Inr (Pipeline p), ?s1)"
    using stored by (simp add: same returning_def getCopyImagePipeline_hit)
  have inv: "cache_inv ?s1"
    using assms(1) by (intro reachable_cache_inv [of ext] reachable.called)
  have one: "count_list (created (m_device ?s1)) (CopyImage ?key) = 1"
    using inv stored by (rule cache_inv_present)
  have "?Q p"
    unfolding Let_def run fst_conv snd_conv
    using again stored one log cache_inv_image_count [OF inv]
    by (simp add: image_find_map_of)
  then show "\<exists>p. ?Q p"
    by (rule exI [of ?Q p])
qed

theorem getCopyImagePipeline_creates_once_witness:
  "fst (calls example_externals
          (replicate 2 (GetCopyImagePipeline VK_IMAGE_VIEW_TYPE_2D VK_FORMAT_R8G8B8A8_UNORM
             VK_SAMPLE_COUNT_1_BIT))
          (DxvkMetaCopyObjects_new \<lparr> created = [] \<rparr>))
     = [Inr (Pipeline \<lparr> layout = 4096, pipeline = 1 \<rparr>),
        Inr (Pipeline \<lparr> layout = 4096, pipeline = 1 \<rparr>)]
   \<and> created (m_device (snd (calls example_externals
          (replicate 2 (GetCopyImagePipeline VK_IMAGE_VIEW_TYPE_2D VK_FORMAT_R8G8B8A8_UNORM
             VK_SAMPLE_COUNT_1_BIT))
          (DxvkMetaCopyObjects_new \<lparr> created = [] \<rparr>))))
     = [CopyImage \<lparr> viewType = VK_IMAGE_VIEW_TYPE_2D, format = VK_FORMAT_R8G8B8A8_UNORM,
                    samples = VK_SAMPLE_COUNT_1_BIT \<rparr>]
   \<and> call example_externals
          (GetCopyImagePipeline VK_IMAGE_VIEW_TYPE_2D VK_FORMAT_R8G8B8A8_UNORM VK_SAMPLE_COUNT_1_BIT)
          (snd (calls example_externals
            (replicate 2 (GetCopyImagePipeline VK_IMAGE_VIEW_TYPE_2D VK_FORMAT_R8G8B8A8_UNORM
               VK_SAMPLE_COUNT_1_BIT))
            (DxvkMetaCopyObjects_new \<lparr> created = [] \<rparr>)))
        = (Inr (Pipeline \<lparr> layout = 4096, pipeline = 1 \<rparr>), snd (calls example_externals
            (replicate 2 (GetCopyImagePipeline VK_IMAGE_VIEW_TYPE_2D VK_FORMAT_R8G8B8A8_UNORM
               VK_SAMPLE_COUNT_1_BIT))
            (DxvkMetaCopyObjects_new \<lparr> created = [] \<rparr>)))
   \<and> fst (getCopyBufferToImagePipeline example_externals
          VK_FORMAT_D32_SFLOAT VK_FORMAT_R32_SFLOAT VK_IMAGE_ASPECT_DEPTH_BIT
          (snd (getCopyBufferToImagePipeline example_externals
             VK_FORMAT_D32_SFLOAT VK_FORMAT_R32_SFLOAT VK_IMAGE_ASPECT_DEPTH_BIT
             (DxvkMetaCopyObjects_new \<lparr> created = [] \<rparr>))))
     = Inr \<lparr> layout = 4096, pipeline = 1 \<rparr>
   \<and> fst (getCopyImageToBufferPipeline example_externals
          VK_IMAGE_VIEW_TYPE_2D VK_FORMAT_R32_SFLOAT
          (snd (getCopyImageToBufferPipeline example_externals
             VK_IMAGE_VIEW_TYPE_2D VK_FORMAT_R32_SFLOAT
             (DxvkMetaCopyObjects_new \<lparr> created = [] \<rparr>))))
     = Inr \<lparr> layout = 4096, pipeline = 1 \<rparr>"
proof -
  let ?key = "\<lparr> viewType = VK_IMAGE_VIEW_TYPE_2D, format = VK_FORMAT_R8G8B8A8_UNORM,
                 samples = VK_SAMPLE_COUNT_1_BIT \<rparr>"
  let ?new = "DxvkMetaCopyObjects_new \<lparr> created = [] \<rparr>"
  let ?P = "\<lparr> layout = 4096, pipeline = 1 \<rparr> :: DxvkMetaCopyPipeline"
  let ?c = "GetCopyImagePipeline VK_IMAGE_VIEW_TYPE_2D VK_FORMAT_R8G8B8A8_UNORM VK_SAMPLE_COUNT_1_BIT"
  let ?run = "calls example_externals (replicate 2 ?c) ?new"
  let ?b = "getCopyBufferToImagePipeline example_externals
      VK_FORMAT_D32_SFLOAT VK_FORMAT_R32_SFLOAT VK_IMAGE_ASPECT_DEPTH_BIT"
  let ?i = "getCopyImageToBufferPipeline example_externals VK_IMAGE_VIEW_TYPE_2D VK_FORMAT_R32_SFLOAT"
  have h1: "reachable example_externals ?new"
    by (rule reachable.constructed)
  have h2: "0 < (2 :: nat)"
    by simp
  have h3: "image_find (m_copyImagePipelines ?new) ?key = None
      \<longrightarrow> (\<exists>p. vkCreatePipeline example_externals (created (m_device ?new)) (CopyImage ?key) = Inr p)"
    by (simp add: example_externals_def)
  have h4: "DxvkMetaImageCopyPipelineKey_eq ?key ?key"
    by (simp add: DxvkMetaImageCopyPipelineKey_eq_def)
  have h5: "fst (?b ?new) = Inr ?P"
    by (simp add: example_eval)
  have h6: "fst (?i ?new) = Inr ?P"
    by (simp add: example_eval)
  have miss: "image_find (m_copyImagePipelines ?new) ?key = None"
    by (simp add: DxvkMetaCopyObjects_new_def unordered_map_find_def)
  have first: "fst (call example_externals ?c ?new) = Inr (Pipeline ?P)"
    by (simp add: example_eval)
  note inst = getCopyImagePipeline_creates_once
    [OF h1 h2 h3 h4, where k = ?key and kb = DxvkMetaBufferImageCopyPipelineKey_default
       and bd = VK_FORMAT_D32_SFLOAT and bs = VK_FORMAT_R32_SFLOAT
       and ba = VK_IMAGE_ASPECT_DEPTH_BIT and q = ?P
       and iv = VK_IMAGE_VIEW_TYPE_2D and idf = VK_FORMAT_R32_SFLOAT and r = ?P]
  from inst [THEN conjunct1]
  obtain p where results: "fst ?run = replicate 2 (Inr (Pipeline p))"
    and again: "call example_externals ?c (snd ?run) = (Inr (Pipeline p), snd ?run)"
    and log: "created (m_device (snd ?run)) = created (m_device ?new) @
           (if image_find (m_copyImagePipelines ?new) ?key = None then [CopyImage ?key] else [])"
    unfolding Let_def by (elim exE conjE) (rule that)
  have "fst ?run = [Inr (Pipeline p), Inr (Pipeline p)]"
    using results by (simp only: numeral_2_eq_2 replicate.simps)
  moreover have "fst ?run = fst (call example_externals ?c ?new) # tl (fst ?run)"
    by (simp add: numeral_2_eq_2)
  ultimately have p: "p = ?P"
    using first by simp
  have 1: "fst ?run = [Inr (Pipeline ?P), Inr (Pipeline ?P)]"
    using results unfolding p by (simp only: numeral_2_eq_2 replicate.simps)
  have 2: "created (m_device (snd ?run)) = [CopyImage ?key]"
    unfolding log using miss by (simp add: DxvkMetaCopyObjects_new_def)
  have 3: "call example_externals ?c (snd ?run) = (Inr (Pipeline ?P), snd ?run)"
    using again unfolding p .
  from inst [THEN conjunct2, THEN conjunct1, THEN mp, OF h5]
  have "?b (snd (?b ?new)) = (Inr ?P, snd (?b ?new))"
    by (rule conjunct1)
  then have 4: "fst (?b (snd (?b ?new))) = Inr ?P"
    by simp
  from inst [THEN conjunct2, THEN conjunct2, THEN mp, OF h6]
  have "?i (snd (?i ?new)) = (Inr ?P, snd (?i ?new))"
    by (rule conjunct1)
  then have 5: "fst (?i (snd (?i ?new))) = Inr ?P"
    by simp
  from 1 2 3 4 5 show ?thesis
    by (intro conjI)
qed

text \<open>
  Claim C9. Whatever public methods are called afterwards, a key that a table maps to a
  pipeline is still mapped to the same pipeline, in each of the three tables, and the
  entries a table had are still its first entries, unchanged and in the same order: no
  entry is overwritten, replaced or removed.
\<close>

theorem stored_pipelines_never_change:
  "(image_find (m_copyImagePipelines this) ki = Some p
      \<longrightarrow> image_find (m_copyImagePipelines (snd (calls ext cs this))) ki = Some p)
   \<and> (buffer_image_find (m_bufferToImagePipelines this) kb = Some q
      \<longrightarrow> buffer_image_find (m_bufferToImagePipelines (snd (calls ext cs this))) kb = Some q)
   \<and> (buffer_image_find (m_imageToBufferPipelines this) kc = Some r
      \<longrightarrow> buffer_image_find (m_imageToBufferPipelines (snd (calls ext cs this))) kc = Some r)
   \<and> take (length (m_copyImagePipelines this)) (m_copyImagePipelines (snd (calls ext cs this)))
      = m_copyImagePipelines this
   \<and> take (length (m_bufferToImagePipelines this)) (m_bufferToImagePipelines (snd (calls ext cs this)))
      = m_bufferToImagePipelines this
   \<and> take (length (m_imageToBufferPipelines this)) (m_imageToBufferPipelines (snd (calls ext cs this)))
      = m_imageToBufferPipelines this"
  using calls_keep_entries [of this ki p ext cs kb q kc r] calls_keep_tables [of this ext cs]
  by (simp add: image_find_map_of buffer_image_find_map_of)

theorem stored_pipelines_never_change_witness:
  "image_find
     (m_copyImagePipelines (snd (calls example_externals
        [GetCopyImageFormats VK_FORMAT_R32_SFLOAT VK_IMAGE_ASPECT_DEPTH_BIT VK_FORMAT_D32_SFLOAT VK_IMAGE_ASPECT_DEPTH_BIT,
         GetCopyImagePipeline VK_IMAGE_VIEW_TYPE_2D VK_FORMAT_R8G8B8A8_UNORM VK_SAMPLE_COUNT_1_BIT,
         GetCopyBufferToImagePipeline VK_FORMAT_D32_SFLOAT VK_FORMAT_R32_SFLOAT VK_IMAGE_ASPECT_DEPTH_BIT,
         GetCopyImageToBufferPipeline VK_IMAGE_VIEW_TYPE_2D VK_FORMAT_R32_SFLOAT,
         GetCopyFormattedBufferPipeline]
        \<lparr> m_device = \<lparr> created = [] \<rparr>,
          m_copyImagePipelines = [(DxvkMetaImageCopyPipelineKey_default, \<lparr> layout = 1, pipeline = 7 \<rparr>)],
          m_bufferToImagePipelines = [(DxvkMetaBufferImageCopyPipelineKey_default, \<lparr> layout = 1, pipeline = 8 \<rparr>)],
          m_imageToBufferPipelines = [(DxvkMetaBufferImageCopyPipelineKey_default, \<lparr> layout = 1, pipeline = 9 \<rparr>)],
          m_copyBufferImagePipeline = DxvkMetaCopyPipeline_default \<rparr>)))
     DxvkMetaImageCopyPipelineKey_default = Some \<lparr> layout = 1, pipeline = 7 \<rparr>
   \<and> buffer_image_find
     (m_bufferToImagePipelines (snd (calls example_externals
        [GetCopyImageFormats VK_FORMAT_R32_SFLOAT VK_IMAGE_ASPECT_DEPTH_BIT VK_FORMAT_D32_SFLOAT VK_IMAGE_ASPECT_DEPTH_BIT,
         GetCopyImagePipeline VK_IMAGE_VIEW_TYPE_2D VK_FORMAT_R8G8B8A8_UNORM VK_SAMPLE_COUNT_1_BIT,
         GetCopyBufferToImagePipeline VK_FORMAT_D32_SFLOAT VK_FORMAT_R32_SFLOAT VK_IMAGE_ASPECT_DEPTH_BIT,
         GetCopyImageToBufferPipeline VK_IMAGE_VIEW_TYPE_2D VK_FORMAT_R32_SFLOAT,
         GetCopyFormattedBufferPipeline]
        \<lparr> m_device = \<lparr> created = [] \<rparr>,
          m_copyImagePipelines = [(DxvkMetaImageCopyPipelineKey_default, \<lparr> layout = 1, pipeline = 7 \<rparr>)],
          m_bufferToImagePipelines = [(DxvkMetaBufferImageCopyPipelineKey_default, \<lparr> layout = 1, pipeline = 8 \<rparr>)],
          m_imageToBufferPipelines = [(DxvkMetaBufferImageCopyPipelineKey_default, \<lparr> layout = 1, pipeline = 9 \<rparr>)],
          m_copyBufferImagePipeline = DxvkMetaCopyPipeline_default \<rparr>)))
     DxvkMetaBufferImageCopyPipelineKey_default = Some \<lparr> layout = 1, pipeline = 8 \<rparr>
   \<and> buffer_image_find
     (m_imageToBufferPipelines (snd (calls example_externals
        [GetCopyImageFormats VK_FORMAT_R32_SFLOAT VK_IMAGE_ASPECT_DEPTH_BIT VK_FORMAT_D32_SFLOAT VK_IMAGE_ASPECT_DEPTH_BIT,
         GetCopyImagePipeline VK_IMAGE_VIEW_TYPE_2D VK_FORMAT_R8G8B8A8_UNORM VK_SAMPLE_COUNT_1_BIT,
         GetCopyBufferToImagePipeline VK_FORMAT_D32_SFLOAT VK_FORMAT_R32_SFLOAT VK_IMAGE_ASPECT_DEPTH_BIT,
         GetCopyImageToBufferPipeline VK_IMAGE_VIEW_TYPE_2D VK_FORMAT_R32_SFLOAT,
         GetCopyFormattedBufferPipeline]
        \<lparr> m_device = \<lparr> created = [] \<rparr>,
          m_copyImagePipelines = [(DxvkMetaImageCopyPipelineKey_default, \<lparr> layout = 1, pipeline = 7 \<rparr>)],
          m_bufferToImagePipelines = [(DxvkMetaBufferImageCopyPipelineKey_default, \<lparr> layout = 1, pipeline = 8 \<rparr>)],
          m_imageToBufferPipelines = [(DxvkMetaBufferImageCopyPipelineKey_default, \<lparr> layout = 1, pipeline = 9 \<rparr>)],
          m_copyBufferImagePipeline = DxvkMetaCopyPipeline_default \<rparr>)))
     DxvkMetaBufferImageCopyPipelineKey_default = Some \<lparr> layout = 1, pipeline = 9 \<rparr>"
proof -
  let ?s0 = "\<lparr> m_device = \<lparr> created = [] \<rparr>,
          m_copyImagePipelines = [(DxvkMetaImageCopyPipelineKey_default, \<lparr> layout = 1, pipeline = 7 \<rparr>)],
          m_bufferToImagePipelines = [(DxvkMetaBufferImageCopyPipelineKey_default, \<lparr> layout = 1, pipeline = 8 \<rparr>)],
          m_imageToBufferPipelines = [(DxvkMetaBufferImageCopyPipelineKey_default, \<lparr> layout = 1, pipeline = 9 \<rparr>)],
          m_copyBufferImagePipeline = DxvkMetaCopyPipeline_default \<rparr>"
  have h1: "image_find (m_copyImagePipelines ?s0) DxvkMetaImageCopyPipelineKey_default
      = Some \<lparr> layout = 1, pipeline = 7 \<rparr>"
    by (simp add: unordered_map_find_def DxvkMetaImageCopyPipelineKey_eq_def)
  have h2: "buffer_image_find (m_bufferToImagePipelines ?s0) DxvkMetaBufferImageCopyPipelineKey_default
      = Some \<lparr> layout = 1, pipeline = 8 \<rparr>"
    by (simp add: unordered_map_find_def DxvkMetaBufferImageCopyPipelineKey_eq_def)
  have h3: "buffer_image_find (m_imageToBufferPipelines ?s0) DxvkMetaBufferImageCopyPipelineKey_default
      = Some \<lparr> layout = 1, pipeline = 9 \<rparr>"
    by (simp add: unordered_map_find_def DxvkMetaBufferImageCopyPipelineKey_eq_def)
  show ?thesis
    using stored_pipelines_never_change
      [of ?s0 DxvkMetaImageCopyPipelineKey_default "\<lparr> layout = 1, pipeline = 7 \<rparr>"
          example_externals
          "[GetCopyImageFormats VK_FORMAT_R32_SFLOAT VK_IMAGE_ASPECT_DEPTH_BIT VK_FORMAT_D32_SFLOAT VK_IMAGE_ASPECT_DEPTH_BIT,
            GetCopyImagePipeline VK_IMAGE_VIEW_TYPE_2D VK_FORMAT_R8G8B8A8_UNORM VK_SAMPLE_COUNT_1_BIT,
            GetCopyBufferToImagePipeline VK_FORMAT_D32_SFLOAT VK_FORMAT_R32_SFLOAT VK_IMAGE_ASPECT_DEPTH_BIT,
            GetCopyImageToBufferPipeline VK_IMAGE_VIEW_TYPE_2D VK_FORMAT_R32_SFLOAT,
            GetCopyFormattedBufferPipeline]"
          DxvkMetaBufferImageCopyPipelineKey_default "\<lparr> layout = 1, pipeline = 8 \<rparr>"
          DxvkMetaBufferImageCopyPipelineKey_default "\<lparr> layout = 1, pipeline = 9 \<rparr>"]
      h1 h2 h3
    by blast
qed

text \<open>
  Claim C8. On a cache whose slot is empty, the first call of
  \<^verbatim>\<open>getCopyFormattedBufferPipeline\<close> returns the pipeline the device builds (a valid
  handle, not \<^verbatim>\<open>VK_NULL_HANDLE\<close>), stores it in the slot and is the only
  pipeline-creation call it makes. After any further calls of public methods, a call of
  \<^verbatim>\<open>getCopyFormattedBufferPipeline\<close> returns that same pipeline and leaves the cache
  and the device as they are.
\<close>

theorem getCopyFormattedBufferPipeline_builds_once:
  assumes "pipeline (m_copyBufferImagePipeline this) = VK_NULL_HANDLE"
    and "vkCreatePipeline ext (created (m_device this)) FormattedBuffer = Inr p"
    and "pipeline p \<noteq> VK_NULL_HANDLE"
  shows "let first = getCopyFormattedBufferPipeline ext this;
             later = snd (calls ext cs (snd first)) in
           fst first = Inr p
         \<and> m_copyBufferImagePipeline (snd first) = p
         \<and> created (m_device (snd first)) = created (m_device this) @ [FormattedBuffer]
         \<and> getCopyFormattedBufferPipeline ext later = (Inr p, later)"
proof -
  let ?s1 = "this\<lparr> m_device := \<lparr> created = created (m_device this) @ [FormattedBuffer] \<rparr>,
                   m_copyBufferImagePipeline := p \<rparr>"
  have first: "getCopyFormattedBufferPipeline ext this = (Inr p, ?s1)"
    using assms(1,2) by (rule getCopyFormattedBufferPipeline_miss_ok)
  have full: "pipeline (m_copyBufferImagePipeline ?s1) \<noteq> VK_NULL_HANDLE"
    using assms(3) by simp
  have kept: "m_copyBufferImagePipeline (snd (calls ext cs ?s1)) = p"
    using calls_keep_slot [OF full, of ext cs] by simp
  have "getCopyFormattedBufferPipeline ext (snd (calls ext cs ?s1)) = (Inr p, snd (calls ext cs ?s1))"
    using getCopyFormattedBufferPipeline_hit [of "snd (calls ext cs ?s1)" ext] kept assms(3)
    by simp
  then show ?thesis
    unfolding Let_def first by simp
qed

theorem getCopyFormattedBufferPipeline_builds_once_witness:
  "fst (getCopyFormattedBufferPipeline example_externals (DxvkMetaCopyObjects_new \<lparr> created = [] \<rparr>))
     = Inr \<lparr> layout = 4096, pipeline = 1 \<rparr>
   \<and> created (m_device (snd (getCopyFormattedBufferPipeline example_externals
         (DxvkMetaCopyObjects_new \<lparr> created = [] \<rparr>)))) = [FormattedBuffer]
   \<and> fst (getCopyFormattedBufferPipeline example_externals
        (snd (calls example_externals
           [GetCopyImagePipeline VK_IMAGE_VIEW_TYPE_2D VK_FORMAT_R8G8B8A8_UNORM VK_SAMPLE_COUNT_1_BIT,
            GetCopyFormattedBufferPipeline]
           (snd (getCopyFormattedBufferPipeline example_externals
              (DxvkMetaCopyObjects_new \<lparr> created = [] \<rparr>))))))
     = Inr \<lparr> layout = 4096, pipeline = 1 \<rparr>
   \<and> created (m_device (snd (getCopyFormattedBufferPipeline example_externals
        (snd (calls example_externals
           [GetCopyImagePipeline VK_IMAGE_VIEW_TYPE_2D VK_FORMAT_R8G8B8A8_UNORM VK_SAMPLE_COUNT_1_BIT,
            GetCopyFormattedBufferPipeline]
           (snd (getCopyFormattedBufferPipeline example_externals
              (DxvkMetaCopyObjects_new \<lparr> created = [] \<rparr>))))))))
     = [FormattedBuffer,
        CopyImage \<lparr> viewType = VK_IMAGE_VIEW_TYPE_2D, format = VK_FORMAT_R8G8B8A8_UNORM,
                    samples = VK_SAMPLE_COUNT_1_BIT \<rparr>]"
proof -
  let ?new = "DxvkMetaCopyObjects_new \<lparr> created = [] \<rparr>"
  let ?cs = "[GetCopyImagePipeline VK_IMAGE_VIEW_TYPE_2D VK_FORMAT_R8G8B8A8_UNORM VK_SAMPLE_COUNT_1_BIT,
            GetCopyFormattedBufferPipeline]"
  have h1: "pipeline (m_copyBufferImagePipeline ?new) = VK_NULL_HANDLE"
    by (simp add: DxvkMetaCopyObjects_new_def DxvkMetaCopyPipeline_default_def)
  have h2: "vkCreatePipeline example_externals (created (m_device ?new)) FormattedBuffer
      = Inr \<lparr> layout = 4096, pipeline = 1 \<rparr>"
    by (simp add: example_externals_def DxvkMetaCopyObjects_new_def)
  have h3: "pipeline \<lparr> layout = 4096, pipeline = 1 \<rparr> \<noteq> VK_NULL_HANDLE"
    by (simp add: VK_NULL_HANDLE_def)
  have log: "created (m_device (snd (calls example_externals ?cs
      (snd (getCopyFormattedBufferPipeline example_externals ?new)))))
     = [FormattedBuffer,
        CopyImage \<lparr> viewType = VK_IMAGE_VIEW_TYPE_2D, format = VK_FORMAT_R8G8B8A8_UNORM,
                    samples = VK_SAMPLE_COUNT_1_BIT \<rparr>]"
    by (simp add: example_eval)
  let ?first = "getCopyFormattedBufferPipeline example_externals ?new"
  let ?later = "snd (calls example_externals ?cs (snd ?first))"
  from getCopyFormattedBufferPipeline_builds_once [OF h1 h2 h3, of ?cs]
  have a: "fst ?first = Inr \<lparr> layout = 4096, pipeline = 1 \<rparr>"
    and b: "created (m_device (snd ?first)) = created (m_device ?new) @ [FormattedBuffer]"
    and c: "getCopyFormattedBufferPipeline example_externals ?later
              = (Inr \<lparr> layout = 4096, pipeline = 1 \<rparr>, ?later)"
    unfolding Let_def by blast+
  have 2: "created (m_device (snd ?first)) = [FormattedBuffer]"
    unfolding b by (simp add: DxvkMetaCopyObjects_new_def)
  have 3: "fst (getCopyFormattedBufferPipeline example_externals ?later)
      = Inr \<lparr> layout = 4096, pipeline = 1 \<rparr>"
    unfolding c by simp
  have 4: "created (m_device (snd (getCopyFormattedBufferPipeline example_externals ?later)))
     = [FormattedBuffer,
        CopyImage \<lparr> viewType = VK_IMAGE_VIEW_TYPE_2D, format = VK_FORMAT_R8G8B8A8_UNORM,
                    samples = VK_SAMPLE_COUNT_1_BIT \<rparr>]"
    unfolding c snd_conv by (rule log)
  from a 2 3 4 show ?thesis
    by (intro conjI)
qed

end
